theory Spec2Isabelle
  imports Complex_Main
begin

section \<open>JavaScript values\<close>

text \<open>
  The validators of \<^verbatim>\<open>mds-agency/utils.ts\<close> run on values parsed from a JSON request
  body, and they test those values at run time (\<^verbatim>\<open>typeof\<close>, truthiness, \<^verbatim>\<open>===\<close>),
  so the model keeps the dynamic view: one datatype of JavaScript values.

  A number is \<^verbatim>\<open>NaN\<close>, an infinity, or a finite double, which is represented by the
  rational it denotes. The code only compares and classifies numbers (no arithmetic), and
  \<^verbatim>\<open><\<close>, \<^verbatim>\<open>>\<close>, \<^verbatim>\<open>===\<close> and \<^verbatim>\<open>Number.isInteger\<close> give the same answer on \<^verbatim>\<open>-0\<close> and
  \<^verbatim>\<open>+0\<close>, so nothing is lost by identifying the two zeros.

  An object is an association list of its own properties; the first binding of a key is
  the one that counts.
\<close>

datatype jsnum = NaN | PosInf | NegInf | Fin rat

datatype jsval =
    JUndefined
  | JNull
  | JBool bool
  | JNum jsnum
  | JStr string
  | JArr "jsval list"
  | JObj "(string \<times> jsval) list"

datatype jstype = TUndefined | TObject | TBoolean | TNumber | TString

text \<open>\<^verbatim>\<open>typeof v\<close>: \<^verbatim>\<open>null\<close> and arrays are \<^verbatim>\<open>'object'\<close>.\<close>

fun typeof :: "jsval \<Rightarrow> jstype" where
  "typeof JUndefined = TUndefined"
| "typeof JNull = TObject"
| "typeof (JBool b) = TBoolean"
| "typeof (JNum n) = TNumber"
| "typeof (JStr s) = TString"
| "typeof (JArr xs) = TObject"
| "typeof (JObj kvs) = TObject"

text \<open>
  Truthiness (\<^verbatim>\<open>if (v)\<close>, \<^verbatim>\<open>!v\<close>, \<^verbatim>\<open>a && b\<close>, \<^verbatim>\<open>a || b\<close>): the falsy values are
  \<^verbatim>\<open>undefined\<close>, \<^verbatim>\<open>null\<close>, \<^verbatim>\<open>false\<close>, \<^verbatim>\<open>0\<close>, \<^verbatim>\<open>NaN\<close> and the empty string.
\<close>

fun truthy :: "jsval \<Rightarrow> bool" where
  "truthy JUndefined = False"
| "truthy JNull = False"
| "truthy (JBool b) = b"
| "truthy (JNum n) = (n \<noteq> NaN \<and> n \<noteq> Fin 0)"
| "truthy (JStr s) = (s \<noteq> [])"
| "truthy (JArr xs) = True"
| "truthy (JObj kvs) = True"

text \<open>
  Reading a property \<^verbatim>\<open>v.k\<close> (or destructuring \<^verbatim>\<open>const { k } = v\<close>) for a key \<open>k\<close> that
  is no array index and no member of a prototype, which holds for every key the code
  reads: an own property of an object, \<^verbatim>\<open>undefined\<close> otherwise. On \<^verbatim>\<open>null\<close> and
  \<^verbatim>\<open>undefined\<close> JavaScript throws instead; each caller below says what it does there.
\<close>

fun get :: "jsval \<Rightarrow> string \<Rightarrow> jsval" where
  "get (JObj kvs) k = (case map_of kvs k of Some v \<Rightarrow> v | None \<Rightarrow> JUndefined)"
| "get _ k = JUndefined"

text \<open>Assigning a property \<^verbatim>\<open>o.k = v\<close> of an object.\<close>

fun put :: "jsval \<Rightarrow> string \<Rightarrow> jsval \<Rightarrow> jsval" where
  "put (JObj kvs) k v = JObj ((k, v) # filter (\<lambda>kv. fst kv \<noteq> k) kvs)"
| "put w k v = w"

text \<open>A value that is an object proper (no array, no \<^verbatim>\<open>null\<close>).\<close>

fun is_object :: "jsval \<Rightarrow> bool" where
  "is_object (JObj kvs) = True"
| "is_object _ = False"

fun Array_isArray :: "jsval \<Rightarrow> bool" where
  "Array_isArray (JArr xs) = True"
| "Array_isArray _ = False"

fun elements :: "jsval \<Rightarrow> jsval list" where
  "elements (JArr xs) = xs"
| "elements _ = []"

fun Number_isNaN :: "jsval \<Rightarrow> bool" where
  "Number_isNaN (JNum NaN) = True"
| "Number_isNaN _ = False"

text \<open>\<^verbatim>\<open>Number.isInteger\<close>: a finite number without a fractional part.\<close>

fun Number_isInteger :: "jsval \<Rightarrow> bool" where
  "Number_isInteger (JNum (Fin r)) = (rat_of_int \<lfloor>r\<rfloor> = r)"
| "Number_isInteger _ = False"

text \<open>
  \<^verbatim>\<open>v < c\<close>, \<^verbatim>\<open>v > c\<close> and \<^verbatim>\<open>v === c\<close> against a finite numeric constant \<open>c\<close>, for a \<open>v\<close>
  that is a number (the code guards each use by \<^verbatim>\<open>typeof v !== 'number'\<close>, so no coercion
  ever happens). Every comparison with \<^verbatim>\<open>NaN\<close> is false.
\<close>

fun js_lt :: "jsval \<Rightarrow> rat \<Rightarrow> bool" where
  "js_lt (JNum (Fin r)) c = (r < c)"
| "js_lt (JNum NegInf) c = True"
| "js_lt _ c = False"

fun js_gt :: "jsval \<Rightarrow> rat \<Rightarrow> bool" where
  "js_gt (JNum (Fin r)) c = (r > c)"
| "js_gt (JNum PosInf) c = True"
| "js_gt _ c = False"

fun js_eq_num :: "jsval \<Rightarrow> rat \<Rightarrow> bool" where
  "js_eq_num (JNum (Fin r)) c = (r = c)"
| "js_eq_num _ c = False"

section \<open>Errors\<close>

text \<open>
  What a validator returns: \<^verbatim>\<open>{ error, error_description }\<close>. Most descriptions are
  template literals with one interpolated value, such as \<^verbatim>\<open>`invalid lat ${lat}`\<close>. The
  model keeps the text of a description as the template and the value (the text before,
  the value, the text after): how JavaScript writes a number or an object is not modelled,
  whether it can write the value at all is (see \<open>ToString_throws\<close> below).
\<close>

datatype descr = Lit string | Tmpl string jsval string

record ErrorObject =
  error :: string
  error_description :: descr

text \<open>What a \<^verbatim>\<open>throw\<close> carries: the kind of exception and its message.\<close>

datatype thrown = TypeError string | Error string

text \<open>
  A template literal converts the interpolated value with \<^verbatim>\<open>ToString\<close>. On a value parsed
  from JSON the conversion throws a \<^verbatim>\<open>TypeError\<close> in one case: an object with an own
  property \<^verbatim>\<open>toString\<close>, which shadows \<^verbatim>\<open>Object.prototype.toString\<close> and is no function, so
  that no method is left that returns a primitive. An array is written by joining the
  conversions of its elements, so it throws when one of them does. Every other value has
  a string.
\<close>

fun ToString_throws :: "jsval \<Rightarrow> bool" where
  "ToString_throws (JObj kvs) = (''toString'' \<in> fst ` set kvs)"
| "ToString_throws (JArr xs) = (\<exists>x \<in> set xs. ToString_throws x)"
| "ToString_throws _ = False"

section \<open>Helpers of \<^verbatim>\<open>@mds-core/mds-utils\<close>\<close>

text \<open>
  \<^verbatim>\<open>isUUID\<close>, \<^verbatim>\<open>isPct\<close>, \<^verbatim>\<open>isTimestamp\<close> and \<^verbatim>\<open>isFloat\<close> are imported from a package
  whose source is not part of the code under study, so the validators take them as a
  parameter and every theorem holds whatever they compute.
\<close>

record utils =
  isUUID :: "jsval \<Rightarrow> bool"
  isPct :: "jsval \<Rightarrow> bool"
  isTimestamp :: "jsval \<Rightarrow> bool"
  isFloat :: "jsval \<Rightarrow> bool"

section \<open>\<^verbatim>\<open>badTelemetry\<close>\<close>

definition missing_param :: "descr \<Rightarrow> ErrorObject" where
  "missing_param d = \<lparr>error = ''missing_param'', error_description = d\<rparr>"

definition bad_param :: "descr \<Rightarrow> ErrorObject" where
  "bad_param d = \<lparr>error = ''bad_param'', error_description = d\<rparr>"

text \<open>
  \<^verbatim>\<open>return { error: 'bad_param', error_description: `pre${x}post` }\<close>: the error, unless
  the template throws.
\<close>

definition bad_param_template :: "string \<Rightarrow> jsval \<Rightarrow> string \<Rightarrow> thrown + ErrorObject option" where
  "bad_param_template pre x post =
    (if ToString_throws x then Inl (TypeError ''Cannot convert object to primitive value'')
     else Inr (Some (bad_param (Tmpl pre x post))))"

text \<open>\<^verbatim>\<open>v !== undefined && v !== null\<close>\<close>

definition present :: "jsval \<Rightarrow> bool" where
  "present v = (v \<noteq> JUndefined \<and> v \<noteq> JNull)"

text \<open>
  The function returns an error object or \<^verbatim>\<open>null\<close> (\<open>Inr (Some e)\<close>, \<open>Inr None\<close>), or
  throws (\<open>Inl\<close>): \<^verbatim>\<open>typeof null\<close> is \<^verbatim>\<open>'object'\<close>, so a \<^verbatim>\<open>gps\<close> that is \<^verbatim>\<open>null\<close> passes the
  test of line 210 and the destructuring of line 217 throws a \<^verbatim>\<open>TypeError\<close>; and the
  template of a \<^verbatim>\<open>bad_param\<close> throws when the value it names has no string.
\<close>

definition badTelemetry :: "utils \<Rightarrow> jsval \<Rightarrow> thrown + ErrorObject option" where
  "badTelemetry u telemetry =
    (if \<not> truthy telemetry then Inr (Some (missing_param (Lit ''invalid missing telemetry'')))
     else
       let device_id = get telemetry ''device_id'';
           timestamp = get telemetry ''timestamp'';
           gps = get telemetry ''gps'';
           charge = get telemetry ''charge''
       in
       if typeof gps \<noteq> TObject then Inr (Some (missing_param (Lit ''invalid missing gps'')))
       else if gps = JNull then
         Inl (TypeError ''Cannot destructure property 'altitude' of 'gps' as it is null.'')
       else
         let altitude = get gps ''altitude'';
             accuracy = get gps ''accuracy'';
             speed = get gps ''speed'';
             satellites = get gps ''satellites'';
             lat = get gps ''lat'';
             lng = get gps ''lng''
         in
         if \<not> isUUID u device_id then
           Inr (Some (missing_param (Lit ''no device_id included in telemetry'')))
         else if typeof lat \<noteq> TNumber \<or> Number_isNaN lat \<or> js_lt lat (- 90) \<or> js_gt lat 90
                 \<or> js_eq_num lat 0 then
           bad_param_template ''invalid lat '' lat ''''
         else if typeof lng \<noteq> TNumber \<or> Number_isNaN lng \<or> js_lt lng (- 180) \<or> js_gt lng 180
                 \<or> js_eq_num lng 0 then
           bad_param_template ''invalid lng '' lng ''''
         else if present altitude \<and> \<not> isFloat u altitude then
           bad_param_template ''invalid altitude '' altitude ''''
         else if present accuracy \<and> \<not> isFloat u accuracy then
           bad_param_template ''invalid accuracy '' accuracy ''''
         else if present speed \<and> \<not> isFloat u speed then
           bad_param_template ''invalid speed '' speed ''''
         else if present satellites \<and> \<not> Number_isInteger satellites then
           bad_param_template ''invalid satellites '' satellites ''''
         else if present charge \<and> \<not> isPct u charge then
           bad_param_template ''invalid charge '' charge ''''
         else if \<not> isTimestamp u timestamp then
           bad_param_template ''invalid timestamp '' timestamp
             '' (note: should be in milliseconds)''
         else Inr None)"

section \<open>Vocabulary tables of \<^verbatim>\<open>@mds-core/mds-types\<close>\<close>

text \<open>
  The per-modality tables of legal event types and vehicle states, the trip states and
  the trip-exit events are string arrays imported from a package whose source is not part
  of the code under study: they are a parameter as well.
\<close>

record vocab =
  MICRO_MOBILITY_VEHICLE_EVENTS :: "string list"
  MICRO_MOBILITY_VEHICLE_STATES :: "string list"
  TAXI_VEHICLE_EVENTS :: "string list"
  TAXI_VEHICLE_STATES :: "string list"
  TNC_VEHICLE_EVENT :: "string list"
  TNC_VEHICLE_STATE :: "string list"
  TRIP_STATES :: "string list"
  TAXI_TRIP_EXIT_EVENTS :: "string list"
  TNC_TRIP_EXIT_EVENTS :: "string list"

text \<open>
  \<^verbatim>\<open>table.includes(v)\<close> on an array of strings: \<open>v\<close> is found when it is one of the
  strings (\<^verbatim>\<open>includes\<close> compares by SameValueZero, and no object, number or boolean is
  the same value as a string).
\<close>

fun Array_includes :: "string list \<Rightarrow> jsval \<Rightarrow> bool" where
  "Array_includes table (JStr s) = (s \<in> set table)"
| "Array_includes table _ = False"

text \<open>
  Modelled from the spec: \<^verbatim>\<open>areThereCommonElements\<close> of \<^verbatim>\<open>@mds-core/mds-utils\<close>, whose
  source is missing. The spec reads \<^verbatim>\<open>areThereCommonElements(table, event_types)\<close> as
  "\<^verbatim>\<open>event_types\<close> intersects the set" and its negation as "has no overlap with the set".
\<close>

definition areThereCommonElements :: "string list \<Rightarrow> jsval \<Rightarrow> bool" where
  "areThereCommonElements table arr = list_ex (Array_includes table) (elements arr)"

section \<open>\<^verbatim>\<open>badEvent\<close>\<close>

text \<open>
  A \<^verbatim>\<open>VehicleEvent\<close> as \<^verbatim>\<open>submitVehicleEvent\<close> builds it: an object with exactly these
  properties, each holding whatever the request carried.
\<close>

record VehicleEvent =
  device_id :: jsval
  provider_id :: jsval
  event_types :: jsval
  vehicle_state :: jsval
  trip_state :: jsval
  telemetry :: jsval
  timestamp :: jsval
  trip_id :: jsval
  recorded :: jsval
  telemetry_timestamp :: jsval

text \<open>
  Lines 329-336 (and 338-345, 361-368 with the tables of the other modalities): the loop
  returns at the first event type that the table does not include, then the vehicle state
  is looked up.
\<close>

definition vocabulary_check ::
  "string list \<Rightarrow> string list \<Rightarrow> VehicleEvent \<Rightarrow> thrown + ErrorObject option" where
  "vocabulary_check legal_events legal_states event =
    (case find (\<lambda>event_type. \<not> Array_includes legal_events event_type)
            (elements (event_types event)) of
       Some event_type \<Rightarrow> bad_param_template ''invalid event_type in event_types '' event_type ''''
     | None \<Rightarrow>
         if \<not> Array_includes legal_states (vehicle_state event) then
           bad_param_template ''invalid vehicle_state '' (vehicle_state event) ''''
         else Inr None)"

text \<open>Lines 347-359 for taxi and 370-382 for tnc, which differ in the exit events only.\<close>

definition trip_state_check ::
  "string list \<Rightarrow> string list \<Rightarrow> VehicleEvent \<Rightarrow> thrown + ErrorObject option" where
  \<open>trip_state_check trip_states exit_events event =
    (if truthy (trip_id event) \<and> Array_includes trip_states (vehicle_state event)
        \<and> \<not> areThereCommonElements exit_events (event_types event) then
       if \<not> truthy (trip_state event) then
         Inr (Some (missing_param
                      (Lit ''missing enum field "trip_state" required on trip events'')))
       else if truthy (trip_state event) \<and> \<not> Array_includes trip_states (trip_state event) then
         bad_param_template ''invalid trip_state '' (trip_state event) ''''
       else Inr None
     else Inr None)\<close>

text \<open>
  Lines 328-385: the dispatch on the modality of the device. A branch that neither
  returns nor throws falls through to the checks of the trip id.
\<close>

definition modality_check :: "vocab \<Rightarrow> jsval \<Rightarrow> VehicleEvent \<Rightarrow> thrown + ErrorObject option" where
  "modality_check v modality event =
    (if modality = JStr ''micromobility'' then
       vocabulary_check (MICRO_MOBILITY_VEHICLE_EVENTS v) (MICRO_MOBILITY_VEHICLE_STATES v) event
     else if modality = JStr ''taxi'' then
       (case vocabulary_check (TAXI_VEHICLE_EVENTS v) (TAXI_VEHICLE_STATES v) event of
          Inr None \<Rightarrow> trip_state_check (TRIP_STATES v) (TAXI_TRIP_EXIT_EVENTS v) event
        | r \<Rightarrow> r)
     else if modality = JStr ''tnc'' then
       (case vocabulary_check (TNC_VEHICLE_EVENT v) (TNC_VEHICLE_STATE v) event of
          Inr None \<Rightarrow> trip_state_check (TRIP_STATES v) (TNC_TRIP_EXIT_EVENTS v) event
        | r \<Rightarrow> r)
     else bad_param_template ''invalid event_types in '' (event_types event) '''')"

text \<open>The local function \<^verbatim>\<open>missingTripId\<close>, closed over the constant \<^verbatim>\<open>trip_id\<close>.\<close>

definition missingTripId :: "jsval \<Rightarrow> ErrorObject option" where
  "missingTripId tid =
    (if \<not> truthy tid then Some (missing_param (Lit ''missing trip_id'')) else None)"

text \<open>\<^verbatim>\<open>a || b()\<close> on validator results: \<open>b\<close> is consulted when \<open>a\<close> is \<^verbatim>\<open>null\<close>.\<close>

definition or_else ::
  "thrown + ErrorObject option \<Rightarrow> (thrown + ErrorObject option) \<Rightarrow> thrown + ErrorObject option" where
  "or_else a b = (case a of Inl x \<Rightarrow> Inl x | Inr (Some e) \<Rightarrow> Inr (Some e) | Inr None \<Rightarrow> b)"

text \<open>
  Lines 387-426: the empty trip id becomes \<^verbatim>\<open>null\<close> on the caller's object, a trip id
  that is there must be a UUID, and the events that open or close a trip need valid
  telemetry and a trip id. The result comes with the event as it is left.
\<close>

definition trip_checks :: "utils \<Rightarrow> VehicleEvent \<Rightarrow> (thrown + ErrorObject option) \<times> VehicleEvent" where
  "trip_checks u event =
    (let event' = (if trip_id event = JStr '''' then event\<lparr>trip_id := JNull\<rparr> else event);
         tid = trip_id event'
     in
     if tid \<noteq> JNull \<and> tid \<noteq> JUndefined \<and> \<not> isUUID u (trip_id event') then
       (bad_param_template ''invalid trip_id '' (trip_id event') '' is not a UUID'', event')
     else if areThereCommonElements
         [''trip_start'', ''trip_end'', ''trip_enter_jurisdiction'', ''trip_leave_jurisdiction'']
         (event_types event') then
       (or_else (badTelemetry u (telemetry event')) (Inr (missingTripId tid)), event')
     else if JStr ''provider_drop_off'' \<in> set (elements (event_types event')) then
       (badTelemetry u (telemetry event'), event')
     else (Inr None, event'))"

text \<open>
  \<^verbatim>\<open>badEvent({ modality }, event)\<close>. The first argument is the \<^verbatim>\<open>modality\<close> that the
  parameter pattern takes out of the device.
\<close>

definition badEvent ::
  "utils \<Rightarrow> vocab \<Rightarrow> jsval \<Rightarrow> VehicleEvent \<Rightarrow> (thrown + ErrorObject option) \<times> VehicleEvent" where
  \<open>badEvent u v modality event =
    (if timestamp event = JUndefined then
       (Inr (Some (missing_param (Lit ''missing enum field "timestamp"''))), event)
     else if \<not> isTimestamp u (timestamp event) then
       (bad_param_template ''invalid timestamp '' (timestamp event) '''', event)
     else if \<not> truthy (event_types event) then
       (Inr (Some (missing_param (Lit ''missing enum field "event_type"''))), event)
     else if \<not> Array_isArray (event_types event) then
       (bad_param_template ''invalid event_types '' (event_types event) '''', event)
     else if length (elements (event_types event)) = 0 then
       (Inr (Some (bad_param (Lit ''empty event_types array''))), event)
     else if \<not> truthy (vehicle_state event) then
       (Inr (Some (missing_param (Lit ''missing enum field "vehicle_state"''))), event)
     else
       case modality_check v modality event of
         Inr None \<Rightarrow> trip_checks u event
       | r \<Rightarrow> (r, event))\<close>

section \<open>\<^verbatim>\<open>lower\<close> and \<^verbatim>\<open>computeCompositeVehicleData\<close>\<close>

text \<open>
  \<^verbatim>\<open>String.prototype.toLowerCase\<close> belongs to the JavaScript runtime and follows the
  Unicode case mappings, which are no part of the code under study: it is a parameter.
  What the properties below need of it they say (\<open>lowers_ascii\<close>).
\<close>

record runtime =
  toLowerCase :: "string \<Rightarrow> string"

fun lower :: "runtime \<Rightarrow> jsval \<Rightarrow> jsval" where
  "lower rt (JStr s) = JStr (toLowerCase rt s)"
| "lower rt x = x"

text \<open>The decimal name of an array index, as a property key.\<close>

fun index_key :: "nat \<Rightarrow> string" where
  "index_key n =
    (if n < 10 then [char_of (48 + n)] else index_key (n div 10) @ [char_of (48 + n mod 10)])"

text \<open>
  The own enumerable properties that an object spread \<^verbatim>\<open>{ ...v }\<close> copies: those of an
  object, the indexed elements of an array or of a string, none of any other value.
\<close>

fun spread :: "jsval \<Rightarrow> (string \<times> jsval) list" where
  "spread (JObj kvs) = kvs"
| "spread (JArr xs) = zip (map index_key [0..<length xs]) xs"
| "spread (JStr s) = zip (map index_key [0..<length s]) (map (\<lambda>c. JStr [c]) s)"
| "spread _ = []"

text \<open>
  \<^verbatim>\<open>computeCompositeVehicleData(payload)\<close>, with the three properties that line 492 takes
  out of the payload as arguments. A missing event is \<open>None\<close>; the composite is the object
  that starts as a copy of the device.
\<close>

definition computeCompositeVehicleData :: "jsval \<Rightarrow> VehicleEvent option \<Rightarrow> jsval \<Rightarrow> jsval" where
  "computeCompositeVehicleData device event tel =
    (let composite = JObj (spread device);
         composite = (case event of
             Some e \<Rightarrow>
               put (put (put composite ''prev_events'' (event_types e))
                      ''updated'' (timestamp e))
                 ''state'' (vehicle_state e)
           | None \<Rightarrow>
               put (put composite ''state'' (JStr ''removed''))
                 ''prev_events'' (JArr [JStr ''decommissioned'']))
     in if truthy tel then
          if truthy (get tel ''gps'') then put composite ''gps'' (get tel ''gps'') else composite
        else composite)"

section \<open>The store of record, the cache and the stream\<close>

text \<open>
  \<^verbatim>\<open>@mds-core/mds-db\<close>, \<^verbatim>\<open>@mds-core/mds-agency-cache\<close> and \<^verbatim>\<open>@mds-core/mds-stream\<close> are
  collaborators whose source is missing. Their state is explicit here: the rows of the
  store of record, the entries of the cache, and the stream as the list of records
  appended so far.
\<close>

datatype stream_record =
    StreamDevice jsval
  | StreamEvent VehicleEvent
  | StreamTelemetry "jsval list"
  | StreamEventError jsval VehicleEvent jsval descr

record store =
  db_devices :: "jsval list"
  db_events :: "VehicleEvent list"
  db_telemetry :: "jsval list"
  cache_devices :: "jsval list"
  cache_events :: "VehicleEvent list"
  cache_telemetry :: "jsval list"
  stream_log :: "stream_record list"

text \<open>
  The calls on the cache and the stream may fail for reasons outside the program (the
  network, the service): which of them throw is a parameter of a run.
\<close>

datatype call =
    Cache_readDevice
  | Cache_writeDevice
  | Cache_writeEvent
  | Cache_writeTelemetry
  | Stream_writeDevice
  | Stream_writeEvent
  | Stream_writeTelemetry
  | Stream_writeEventError

type_synonym faults = "call \<Rightarrow> bool"

text \<open>
  Modelled from the spec: \<^verbatim>\<open>db.readDevice\<close>, missing from the sources. "Resolve the device
  by (device_id, provider_id) from the store of record; not-found is a terminal failure";
  the provider is optional in \<^verbatim>\<open>readDevice(id, provider_id?)\<close>.
\<close>

definition db_readDevice :: "store \<Rightarrow> jsval \<Rightarrow> jsval \<Rightarrow> thrown + jsval" where
  "db_readDevice s dev_id prov_id =
    (case find (\<lambda>d. get d ''device_id'' = dev_id
                  \<and> (prov_id = JUndefined \<or> get d ''provider_id'' = prov_id)) (db_devices s) of
       Some d \<Rightarrow> Inr d
     | None \<Rightarrow> Inl (Error ''device not found''))"

text \<open>The key on which events and telemetry are unique: \<^verbatim>\<open>(device_id, timestamp)\<close>.\<close>

definition event_key :: "VehicleEvent \<Rightarrow> jsval \<times> jsval" where
  "event_key e = (device_id e, timestamp e)"

definition telemetry_key :: "jsval \<Rightarrow> jsval \<times> jsval" where
  "telemetry_key t = (get t ''device_id'', get t ''timestamp'')"

text \<open>
  Modelled from the spec: \<^verbatim>\<open>db.writeTelemetry\<close>, missing from the sources.
  "\<^verbatim>\<open>writeTelemetry(list)\<close> -> list of newly-recorded rows (silently absorbs duplicates,
  returns only new rows)".
\<close>

fun db_writeTelemetry :: "store \<Rightarrow> jsval list \<Rightarrow> jsval list \<times> store" where
  "db_writeTelemetry s [] = ([], s)"
| "db_writeTelemetry s (t # ts) =
    (if telemetry_key t \<in> telemetry_key ` set (db_telemetry s) then db_writeTelemetry s ts
     else let (rows, s') = db_writeTelemetry (s\<lparr>db_telemetry := db_telemetry s @ [t]\<rparr>) ts
          in (t # rows, s'))"

text \<open>
  Modelled from the spec: \<^verbatim>\<open>db.writeEvent\<close>, missing from the sources.
  "\<^verbatim>\<open>writeEvent(event)\<close> -> RecordedEvent (fails \<^verbatim>\<open>duplicate\<close> on key collision,
  \<^verbatim>\<open>unregistered\<close> if device unknown)".
\<close>

definition db_writeEvent :: "store \<Rightarrow> VehicleEvent \<Rightarrow> thrown + VehicleEvent \<times> store" where
  "db_writeEvent s e =
    (if device_id e \<notin> (\<lambda>d. get d ''device_id'') ` set (db_devices s) then
       Inl (Error ''unregistered'')
     else if event_key e \<in> event_key ` set (db_events s) then
       Inl (Error ''duplicate'')
     else Inr (e, s\<lparr>db_events := db_events s @ [e]\<rparr>))"

text \<open>
  Modelled from the spec: the cache and the stream, missing from the sources. The cache
  keeps the latest device, event and telemetry of each device; reading a device that it
  does not hold throws. The stream is append-only. A call that throws leaves its service
  as it was.
\<close>

definition cache_readDevice :: "faults \<Rightarrow> store \<Rightarrow> jsval \<Rightarrow> thrown + jsval" where
  "cache_readDevice f s dev_id =
    (if f Cache_readDevice then Inl (Error ''cache unavailable'')
     else case find (\<lambda>d. get d ''device_id'' = dev_id) (cache_devices s) of
            Some d \<Rightarrow> Inr d
          | None \<Rightarrow> Inl (Error ''device not found in cache''))"

definition cache_writeDevice :: "faults \<Rightarrow> jsval \<Rightarrow> store \<Rightarrow> thrown option \<times> store" where
  "cache_writeDevice f d s =
    (if f Cache_writeDevice then (Some (Error ''cache unavailable''), s)
     else (None, s\<lparr>cache_devices :=
             d # filter (\<lambda>d'. get d' ''device_id'' \<noteq> get d ''device_id'') (cache_devices s)\<rparr>))"

definition cache_writeEvent :: "faults \<Rightarrow> VehicleEvent \<Rightarrow> store \<Rightarrow> thrown option \<times> store" where
  "cache_writeEvent f e s =
    (if f Cache_writeEvent then (Some (Error ''cache unavailable''), s)
     else (None, s\<lparr>cache_events :=
             e # filter (\<lambda>e'. device_id e' \<noteq> device_id e) (cache_events s)\<rparr>))"

definition cache_writeTelemetry :: "faults \<Rightarrow> jsval list \<Rightarrow> store \<Rightarrow> thrown option \<times> store" where
  "cache_writeTelemetry f ts s =
    (if f Cache_writeTelemetry then (Some (Error ''cache unavailable''), s)
     else (None, s\<lparr>cache_telemetry :=
             ts @ filter (\<lambda>t'. get t' ''device_id'' \<notin> (\<lambda>t. get t ''device_id'') ` set ts)
                    (cache_telemetry s)\<rparr>))"

definition stream_write :: "faults \<Rightarrow> call \<Rightarrow> stream_record \<Rightarrow> store \<Rightarrow> thrown option \<times> store" where
  "stream_write f c r s =
    (if f c then (Some (Error ''stream unavailable''), s)
     else (None, s\<lparr>stream_log := stream_log s @ [r]\<rparr>))"

text \<open>
  \<^verbatim>\<open>await Promise.all([a, b])\<close>: both calls are started, each has its effect unless it
  throws, and the \<^verbatim>\<open>await\<close> throws when one of them does.
\<close>

definition Promise_all ::
  "(store \<Rightarrow> thrown option \<times> store) \<Rightarrow> (store \<Rightarrow> thrown option \<times> store) \<Rightarrow> store
     \<Rightarrow> thrown option \<times> store" where
  "Promise_all a b s =
    (let (ra, sa) = a s; (rb, sb) = b sa
     in (case ra of Some x \<Rightarrow> Some x | None \<Rightarrow> rb, sb))"

section \<open>\<^verbatim>\<open>submitVehicleEvent\<close>\<close>

text \<open>
  What the handler reads from \<^verbatim>\<open>req\<close> and \<^verbatim>\<open>res.locals\<close>, and the two readings of the
  clock that end up in data: \<^verbatim>\<open>recorded = now()\<close> at the start, and the \<^verbatim>\<open>now()\<close> stamped
  on a record of the error stream.
\<close>

record request =
  params_device_id :: jsval
  locals_provider_id :: jsval
  req_body :: jsval
  now_recorded :: jsval
  now_failed :: jsval

datatype sent = ErrorBody ErrorObject | EventBody jsval jsval

record response =
  status :: nat
  body :: sent

text \<open>
  A run of the handler ends with the response it sent, if it sent one, the state it
  leaves, and the exception that escapes it, if any.
\<close>

record outcome =
  response :: "response option"
  final :: store
  unhandled :: "thrown option"

definition agencyServerError :: ErrorObject where
  "agencyServerError = \<lparr>error = ''server_error'', error_description = Lit ''Unknown server error''\<rparr>"

text \<open>
  Lines 253-279: the event built from the request. Reading \<^verbatim>\<open>req.body.event_types\<close> throws
  a \<^verbatim>\<open>TypeError\<close> when the body is \<^verbatim>\<open>undefined\<close> or \<^verbatim>\<open>null\<close>; on any other value a
  property that is not there reads as \<^verbatim>\<open>undefined\<close>. (The call of \<^verbatim>\<open>validateEvent\<close> in
  between only logs what it finds.)
\<close>

definition make_event :: "runtime \<Rightarrow> request \<Rightarrow> thrown + VehicleEvent" where
  "make_event rt req =
    (let b = req_body req in
     if b = JUndefined then
       Inl (TypeError ''Cannot read properties of undefined (reading 'event_types')'')
     else if b = JNull then
       Inl (TypeError ''Cannot read properties of null (reading 'event_types')'')
     else
       let event =
           \<lparr>device_id = params_device_id req,
            provider_id = locals_provider_id req,
            event_types =
              (if truthy (get b ''event_types'') \<and> Array_isArray (get b ''event_types'')
               then JArr (map (lower rt) (elements (get b ''event_types'')))
               else get b ''event_types''),
            vehicle_state = get b ''vehicle_state'',
            trip_state = (if truthy (get b ''trip_state'') then get b ''trip_state'' else JNull),
            telemetry =
              (if truthy (get b ''telemetry'')
               then put (JObj (spread (get b ''telemetry''))) ''provider_id'' (locals_provider_id req)
               else JNull),
            timestamp = get b ''timestamp'',
            trip_id = get b ''trip_id'',
            recorded = now_recorded req,
            telemetry_timestamp = JUndefined\<rparr>
       in Inr (if truthy (telemetry event)
               then event\<lparr>telemetry_timestamp := get (telemetry event) ''timestamp''\<rparr>
               else event))"

text \<open>\<^verbatim>\<open>err.message || String(err)\<close>\<close>

fun message_of :: "thrown \<Rightarrow> string" where
  "message_of (TypeError m) = (if m \<noteq> [] then m else ''TypeError'')"
| "message_of (Error m) = (if m \<noteq> [] then m else ''Error'')"

text \<open>\<^verbatim>\<open>s.includes(p)\<close> on strings: \<open>p\<close> occurs somewhere in \<open>s\<close>.\<close>

fun String_includes :: "string \<Rightarrow> string \<Rightarrow> bool" where
  "String_includes [] p = (p = [])"
| "String_includes (c # cs) p = (take (length p) (c # cs) = p \<or> String_includes cs p)"

text \<open>Lines 299-324: the local function \<^verbatim>\<open>fail\<close>.\<close>

definition fail :: "faults \<Rightarrow> request \<Rightarrow> thrown \<Rightarrow> VehicleEvent \<Rightarrow> store \<Rightarrow> outcome" where
  "fail f req err event s =
    (let message = message_of err;
         res =
           (if String_includes message ''duplicate'' then
              \<lparr>status = 400,
               body = ErrorBody
                 \<lparr>error = ''bad_param'',
                  error_description =
                    Lit ''An event with this device_id and timestamp has already been received''\<rparr>\<rparr>
            else if String_includes message ''not found'' \<or> String_includes message ''unregistered'' then
              \<lparr>status = 400,
               body = ErrorBody
                 \<lparr>error = ''unregistered'',
                  error_description = Lit ''The specified device_id has not been registered''\<rparr>\<rparr>
            else \<lparr>status = 500, body = ErrorBody agencyServerError\<rparr>);
         (r, s') = stream_write f Stream_writeEventError
                     (StreamEventError (locals_provider_id req) event (now_failed req) (Lit message)) s
     in \<lparr>response = Some res, final = s', unhandled = r\<rparr>)"

text \<open>Lines 329-338: the device is put back into the cache when the cache cannot read it.\<close>

definition warm_cache :: "faults \<Rightarrow> jsval \<Rightarrow> jsval \<Rightarrow> store \<Rightarrow> store" where
  "warm_cache f device dev_id s =
    (case cache_readDevice f s dev_id of
       Inr d \<Rightarrow> s
     | Inl err \<Rightarrow>
         snd (Promise_all (cache_writeDevice f device)
                (stream_write f Stream_writeDevice (StreamDevice device)) s))"

text \<open>
  Lines 339-342: the device id goes into the embedded telemetry, then
  \<^verbatim>\<open>(await badEvent(device, event)) || (event.telemetry ? badTelemetry(event.telemetry) : null)\<close>.
\<close>

definition validate ::
  "utils \<Rightarrow> vocab \<Rightarrow> jsval \<Rightarrow> VehicleEvent \<Rightarrow> (thrown + ErrorObject option) \<times> VehicleEvent" where
  "validate u v device event =
    (let event1 = (if truthy (telemetry event)
                   then event\<lparr>telemetry := put (telemetry event) ''device_id'' (device_id event)\<rparr>
                   else event);
         (r, event2) = badEvent u v (get device ''modality'') event1
     in (or_else r (if truthy (telemetry event2) then badTelemetry u (telemetry event2) else Inr None),
         event2))"

text \<open>
  Lines 363-375, up to the call of \<^verbatim>\<open>success\<close> that ends both the \<^verbatim>\<open>try\<close> and the
  \<^verbatim>\<open>catch\<close>: the writes to the cache and the stream.
\<close>

definition fan_out :: "faults \<Rightarrow> request \<Rightarrow> VehicleEvent \<Rightarrow> jsval \<Rightarrow> store \<Rightarrow> store" where
  "fan_out f req recorded_event tel s =
    (let (r, s1) = Promise_all (cache_writeEvent f recorded_event)
                     (stream_write f Stream_writeEvent (StreamEvent recorded_event)) s
     in case r of
          Some err \<Rightarrow> s1
        | None \<Rightarrow>
            if truthy tel then
              let tel' = put tel ''recorded'' (now_recorded req)
              in snd (Promise_all (cache_writeTelemetry f [tel'])
                        (stream_write f Stream_writeTelemetry (StreamTelemetry [tel'])) s1)
            else s1)"

text \<open>
  The handler. The event is built before the \<^verbatim>\<open>try\<close> of line 327: an exception there
  escapes the handler and no response is sent.
\<close>

definition submitVehicleEvent ::
  "runtime \<Rightarrow> utils \<Rightarrow> vocab \<Rightarrow> faults \<Rightarrow> request \<Rightarrow> store \<Rightarrow> outcome" where
  "submitVehicleEvent rt u v f req s =
    (case make_event rt req of
       Inl err \<Rightarrow> \<lparr>response = None, final = s, unhandled = Some err\<rparr>
     | Inr event \<Rightarrow>
        (case db_readDevice s (device_id event) (locals_provider_id req) of
           Inl err \<Rightarrow> fail f req err event s
         | Inr device \<Rightarrow>
             let s1 = warm_cache f device (device_id event) s;
                 (failure, event') = validate u v device event
             in (case failure of
                  Inl err \<Rightarrow> fail f req err event' s1
                | Inr (Some e) \<Rightarrow>
                    (case stream_write f Stream_writeEventError
                            (StreamEventError (locals_provider_id req) event' (now_failed req)
                               (error_description e)) s1 of
                       (Some err, s2) \<Rightarrow> fail f req err event' s2
                     | (None, s2) \<Rightarrow>
                         \<lparr>response = Some \<lparr>status = 400, body = ErrorBody e\<rparr>, final = s2,
                          unhandled = None\<rparr>)
                | Inr None \<Rightarrow>
                    let s2 = (if truthy (telemetry event')
                              then snd (db_writeTelemetry s1 [telemetry event']) else s1)
                    in (case db_writeEvent s2 event' of
                         Inl err \<Rightarrow> fail f req err event' s2
                       | Inr (recorded_event, s3) \<Rightarrow>
                           \<lparr>response = Some
                              \<lparr>status = 201,
                               body = EventBody (params_device_id req) (vehicle_state event')\<rparr>,
                            final = fan_out f req recorded_event (telemetry event') s3,
                            unhandled = None\<rparr>))))"

text \<open>
  The state in which line 361 calls \<^verbatim>\<open>db.writeEvent\<close> for a valid event: after the cache
  has been warmed up and the telemetry of the event, if any, has been written.
\<close>

definition store_before_write :: "faults \<Rightarrow> jsval \<Rightarrow> VehicleEvent \<Rightarrow> store \<Rightarrow> store" where
  "store_before_write f device event s =
    (let s1 = warm_cache f device (device_id event) s
     in if truthy (telemetry event) then snd (db_writeTelemetry s1 [telemetry event]) else s1)"

section \<open>The notions of the specification\<close>

text \<open>
  A coordinate "is a number in \<open>[-b, b]\<close> and not 0"; an optional field is well-formed
  when it is absent, \<^verbatim>\<open>null\<close>, or passes its test.
\<close>

fun in_range :: "rat \<Rightarrow> jsval \<Rightarrow> bool" where
  "in_range b (JNum (Fin r)) = (- b \<le> r \<and> r \<le> b \<and> r \<noteq> 0)"
| "in_range b _ = False"

definition optional_ok :: "(jsval \<Rightarrow> bool) \<Rightarrow> jsval \<Rightarrow> bool" where
  "optional_ok p x = (x = JUndefined \<or> x = JNull \<or> p x)"

text \<open>
  The right-hand side of the specification's law for telemetry: coordinates in range,
  a UUID, a millisecond timestamp, and the optional fields altitude, accuracy, speed,
  satellites and charge well-formed.
\<close>

definition telemetry_ok :: "utils \<Rightarrow> jsval \<Rightarrow> bool" where
  "telemetry_ok u t =
    (in_range 90 (get (get t ''gps'') ''lat'') \<and>
     in_range 180 (get (get t ''gps'') ''lng'') \<and>
     isUUID u (get t ''device_id'') \<and>
     isTimestamp u (get t ''timestamp'') \<and>
     optional_ok (isFloat u) (get (get t ''gps'') ''altitude'') \<and>
     optional_ok (isFloat u) (get (get t ''gps'') ''accuracy'') \<and>
     optional_ok (isFloat u) (get (get t ''gps'') ''speed'') \<and>
     optional_ok Number_isInteger (get (get t ''gps'') ''satellites'') \<and>
     optional_ok (isPct u) (get t ''charge''))"

text \<open>The same with the heading among the optional fields, a finite float like the speed.\<close>

definition telemetry_ok_with_heading :: "utils \<Rightarrow> jsval \<Rightarrow> bool" where
  "telemetry_ok_with_heading u t =
    (telemetry_ok u t \<and> optional_ok (isFloat u) (get (get t ''gps'') ''heading''))"

text \<open>
  The checks of section 4.1 in their order of precedence, each with the error it
  reports; the first one that fails wins.
\<close>

definition telemetry_checks :: "utils \<Rightarrow> jsval \<Rightarrow> (bool \<times> ErrorObject) list" where
  "telemetry_checks u t =
    (let gps = get t ''gps'' in
     [(\<not> truthy t, missing_param (Lit ''invalid missing telemetry'')),
      (typeof gps \<noteq> TObject, missing_param (Lit ''invalid missing gps'')),
      (\<not> isUUID u (get t ''device_id''),
         missing_param (Lit ''no device_id included in telemetry'')),
      (\<not> in_range 90 (get gps ''lat''),
         bad_param (Tmpl ''invalid lat '' (get gps ''lat'') '''')),
      (\<not> in_range 180 (get gps ''lng''),
         bad_param (Tmpl ''invalid lng '' (get gps ''lng'') '''')),
      (\<not> optional_ok (isFloat u) (get gps ''altitude''),
         bad_param (Tmpl ''invalid altitude '' (get gps ''altitude'') '''')),
      (\<not> optional_ok (isFloat u) (get gps ''accuracy''),
         bad_param (Tmpl ''invalid accuracy '' (get gps ''accuracy'') '''')),
      (\<not> optional_ok (isFloat u) (get gps ''speed''),
         bad_param (Tmpl ''invalid speed '' (get gps ''speed'') '''')),
      (\<not> optional_ok Number_isInteger (get gps ''satellites''),
         bad_param (Tmpl ''invalid satellites '' (get gps ''satellites'') '''')),
      (\<not> optional_ok (isPct u) (get t ''charge''),
         bad_param (Tmpl ''invalid charge '' (get t ''charge'') '''')),
      (\<not> isTimestamp u (get t ''timestamp''),
         bad_param (Tmpl ''invalid timestamp '' (get t ''timestamp'')
                      '' (note: should be in milliseconds)''))])"

definition first_failure :: "(bool \<times> ErrorObject) list \<Rightarrow> ErrorObject option" where
  "first_failure checks = map_option snd (find fst checks)"

text \<open>
  A result whose description can be written: no error, an error with a fixed text, or an
  error whose template names a value that has a string.
\<close>

definition writable :: "ErrorObject option \<Rightarrow> bool" where
  "writable r =
    (case r of
       None \<Rightarrow> True
     | Some e \<Rightarrow> (case error_description e of Lit s \<Rightarrow> True | Tmpl a x b \<Rightarrow> \<not> ToString_throws x))"

text \<open>
  A result \<open>x\<close> of the code renders the outcome \<open>r\<close> of a list of checks when it is \<open>r\<close>
  where the description of \<open>r\<close> can be written, and the \<^verbatim>\<open>TypeError\<close> of the template where
  it cannot.
\<close>

definition renders :: "ErrorObject option \<Rightarrow> thrown + ErrorObject option \<Rightarrow> bool" where
  "renders r x =
    ((writable r \<longrightarrow> x = Inr r) \<and>
     (\<not> writable r \<longrightarrow> x = Inl (TypeError ''Cannot convert object to primitive value'')))"

text \<open>
  Letter case, on ASCII: the capital letters are the characters 65 to 90, and the small
  letter of a capital is 32 further. Two characters are the same letter when they are
  equal or one is the capital of the other; two strings are the same up to case when
  they are so character by character. A runtime lowers ASCII when its \<^verbatim>\<open>toLowerCase\<close>,
  on a string of ASCII characters, replaces each capital by its small letter.
\<close>

definition capital :: "char \<Rightarrow> bool" where
  "capital c = (65 \<le> (of_char c :: nat) \<and> (of_char c :: nat) \<le> 90)"

definition ascii_lower :: "char \<Rightarrow> char" where
  "ascii_lower c = (if capital c then char_of ((of_char c :: nat) + 32) else c)"

definition is_ascii :: "string \<Rightarrow> bool" where
  "is_ascii s = list_all (\<lambda>c. (of_char c :: nat) < 128) s"

definition no_capitals :: "string \<Rightarrow> bool" where
  "no_capitals s = list_all (\<lambda>c. \<not> capital c) s"

definition same_letter :: "char \<Rightarrow> char \<Rightarrow> bool" where
  "same_letter a b =
    (a = b \<or> (capital a \<and> (of_char b :: nat) = of_char a + 32)
           \<or> (capital b \<and> (of_char a :: nat) = of_char b + 32))"

definition same_up_to_case :: "string \<Rightarrow> string \<Rightarrow> bool" where
  "same_up_to_case s w = list_all2 same_letter s w"

definition lowers_ascii :: "runtime \<Rightarrow> bool" where
  "lowers_ascii rt = (\<forall>s. is_ascii s \<longrightarrow> toLowerCase rt s = map ascii_lower s)"

text \<open>
  The checks of \<^verbatim>\<open>badEvent\<close> that come before the dispatch on the modality (lines
  293-326): a timestamp that is there and valid, a non-empty array of event types, a
  vehicle state.
\<close>

definition well_shaped :: "utils \<Rightarrow> VehicleEvent \<Rightarrow> bool" where
  "well_shaped u e =
    (timestamp e \<noteq> JUndefined \<and> isTimestamp u (timestamp e) \<and> Array_isArray (event_types e)
     \<and> elements (event_types e) \<noteq> [] \<and> truthy (vehicle_state e))"

text \<open>A trip id is absent when it is \<^verbatim>\<open>undefined\<close>, \<^verbatim>\<open>null\<close> or the empty string.\<close>

definition absent :: "jsval \<Rightarrow> bool" where
  "absent x = (x = JUndefined \<or> x = JNull \<or> x = JStr '''')"

definition trip_boundary_events :: "string list" where
  "trip_boundary_events =
    [''trip_start'', ''trip_end'', ''trip_enter_jurisdiction'', ''trip_leave_jurisdiction'']"

text \<open>
  The tables that belong to a modality: its legal event types, its legal vehicle states
  and its trip-exit events (micromobility has none).
\<close>

definition legal_events :: "vocab \<Rightarrow> jsval \<Rightarrow> string list" where
  "legal_events v m =
    (if m = JStr ''micromobility'' then MICRO_MOBILITY_VEHICLE_EVENTS v
     else if m = JStr ''taxi'' then TAXI_VEHICLE_EVENTS v
     else if m = JStr ''tnc'' then TNC_VEHICLE_EVENT v
     else [])"

definition legal_states :: "vocab \<Rightarrow> jsval \<Rightarrow> string list" where
  "legal_states v m =
    (if m = JStr ''micromobility'' then MICRO_MOBILITY_VEHICLE_STATES v
     else if m = JStr ''taxi'' then TAXI_VEHICLE_STATES v
     else if m = JStr ''tnc'' then TNC_VEHICLE_STATE v
     else [])"

definition trip_exit_events :: "vocab \<Rightarrow> jsval \<Rightarrow> string list" where
  "trip_exit_events v m =
    (if m = JStr ''taxi'' then TAXI_TRIP_EXIT_EVENTS v
     else if m = JStr ''tnc'' then TNC_TRIP_EXIT_EVENTS v
     else [])"

text \<open>Every event type of the event and its vehicle state are in the modality's tables.\<close>

definition in_vocabulary :: "vocab \<Rightarrow> jsval \<Rightarrow> VehicleEvent \<Rightarrow> bool" where
  "in_vocabulary v m e =
    (list_all (Array_includes (legal_events v m)) (elements (event_types e))
     \<and> Array_includes (legal_states v m) (vehicle_state e))"

section \<open>A sample instance\<close>

text \<open>
  One instance of the parameters, on which the definitions are evaluated: helpers in the
  style of \<^verbatim>\<open>mds-utils\<close> (a UUID is a string of hexadecimal digits grouped 8-4-4-4-12, a
  timestamp an integer with thirteen digits, a float a finite number, a percentage a
  number from 0 to 1) and vocabulary tables in the style of the Mobility Data
  Specification.
\<close>

definition hex_digit :: "char \<Rightarrow> bool" where
  "hex_digit c = (c \<in> set ''0123456789abcdefABCDEF'')"

definition sample_utils :: utils where
  "sample_utils =
    \<lparr>isUUID = (\<lambda>x. case x of
        JStr s \<Rightarrow> list_all2 (\<lambda>c m. if m = CHR ''-'' then c = CHR ''-'' else hex_digit c)
                    s ''xxxxxxxx-xxxx-xxxx-xxxx-xxxxxxxxxxxx''
      | _ \<Rightarrow> False),
     isPct = (\<lambda>x. case x of JNum (Fin r) \<Rightarrow> 0 \<le> r \<and> r \<le> 1 | _ \<Rightarrow> False),
     isTimestamp = (\<lambda>x. case x of
        JNum (Fin r) \<Rightarrow> rat_of_int \<lfloor>r\<rfloor> = r \<and> 1000000000000 \<le> r \<and> r < 10000000000000
      | _ \<Rightarrow> False),
     isFloat = (\<lambda>x. case x of JNum (Fin r) \<Rightarrow> True | _ \<Rightarrow> False)\<rparr>"

definition sample_vocab :: vocab where
  "sample_vocab =
    \<lparr>MICRO_MOBILITY_VEHICLE_EVENTS =
       [''agency_drop_off'', ''agency_pick_up'', ''battery_charged'', ''battery_low'',
        ''comms_lost'', ''comms_restored'', ''compliance_pick_up'', ''decommissioned'',
        ''located'', ''maintenance'', ''maintenance_pick_up'', ''missing'', ''off_hours'',
        ''on_hours'', ''provider_drop_off'', ''rebalance_pick_up'', ''reservation_cancel'',
        ''reservation_start'', ''system_resume'', ''system_suspend'', ''trip_cancel'',
        ''trip_end'', ''trip_enter_jurisdiction'', ''trip_leave_jurisdiction'', ''trip_start'',
        ''unspecified''],
     MICRO_MOBILITY_VEHICLE_STATES =
       [''available'', ''elsewhere'', ''non_operational'', ''on_trip'', ''removed'',
        ''reserved'', ''unknown''],
     TAXI_VEHICLE_EVENTS =
       [''comms_lost'', ''comms_restored'', ''decommissioned'', ''driver_cancellation'',
        ''enter_jurisdiction'', ''leave_jurisdiction'', ''maintenance'',
        ''passenger_cancellation'', ''provider_cancellation'', ''recommissioned'',
        ''reserve_enroute'', ''reserve_stop'', ''service_end'', ''service_start'', ''trip_end'',
        ''trip_resume'', ''trip_start'', ''trip_stop''],
     TAXI_VEHICLE_STATES =
       [''available'', ''elsewhere'', ''non_operational'', ''on_trip'', ''removed'',
        ''reserved'', ''stopped'', ''unknown''],
     TNC_VEHICLE_EVENT =
       [''comms_lost'', ''comms_restored'', ''driver_cancellation'', ''enter_jurisdiction'',
        ''leave_jurisdiction'', ''maintenance'', ''passenger_cancellation'',
        ''provider_cancellation'', ''reserve_enroute'', ''reserve_stop'', ''service_end'',
        ''service_start'', ''trip_end'', ''trip_resume'', ''trip_start'', ''trip_stop'',
        ''unspecified''],
     TNC_VEHICLE_STATE =
       [''available'', ''elsewhere'', ''non_operational'', ''on_trip'', ''reserved'',
        ''stopped'', ''unknown''],
     TRIP_STATES = [''on_trip'', ''reserved'', ''stopped''],
     TAXI_TRIP_EXIT_EVENTS =
       [''trip_end'', ''leave_jurisdiction'', ''passenger_cancellation'',
        ''provider_cancellation'', ''driver_cancellation''],
     TNC_TRIP_EXIT_EVENTS =
       [''trip_end'', ''leave_jurisdiction'', ''passenger_cancellation'',
        ''provider_cancellation'', ''driver_cancellation'']\<rparr>"

definition sample_device_id :: jsval where
  "sample_device_id = JStr ''0f4e2b1a-7c3d-4e5f-8a9b-123456789abc''"

definition sample_provider_id :: jsval where
  "sample_provider_id = JStr ''5f7114d1-4091-46ee-b492-e55875f7de00''"

definition sample_timestamp :: jsval where
  "sample_timestamp = JNum (Fin 1600000000000)"

definition sample_gps :: jsval where
  "sample_gps = JObj [(''lat'', JNum (Fin (3405 / 100))), (''lng'', JNum (Fin (- 11824 / 100)))]"

definition sample_telemetry :: jsval where
  "sample_telemetry =
    JObj [(''device_id'', sample_device_id), (''timestamp'', sample_timestamp),
          (''gps'', sample_gps)]"

definition sample_event :: VehicleEvent where
  "sample_event =
    \<lparr>device_id = sample_device_id,
     provider_id = sample_provider_id,
     event_types = JArr [JStr ''trip_start''],
     vehicle_state = JStr ''on_trip'',
     trip_state = JNull,
     telemetry = sample_telemetry,
     timestamp = sample_timestamp,
     trip_id = JStr ''1f981864-cc17-40cf-aea3-70fd985e2ea7'',
     recorded = JNum (Fin 1600000000123),
     telemetry_timestamp = sample_timestamp\<rparr>"

definition sample_device :: jsval where
  "sample_device =
    JObj [(''device_id'', sample_device_id), (''provider_id'', sample_provider_id),
          (''vehicle_id'', JStr ''LA-0042''), (''modality'', JStr ''micromobility''),
          (''status'', JStr ''removed'')]"

definition sample_store :: store where
  "sample_store =
    \<lparr>db_devices = [sample_device], db_events = [], db_telemetry = [],
     cache_devices = [], cache_events = [], cache_telemetry = [], stream_log = []\<rparr>"

definition sample_request :: request where
  "sample_request =
    \<lparr>params_device_id = sample_device_id,
     locals_provider_id = sample_provider_id,
     req_body =
       JObj [(''event_types'', JArr [JStr ''trip_start'']),
             (''vehicle_state'', JStr ''on_trip''),
             (''trip_id'', JStr ''1f981864-cc17-40cf-aea3-70fd985e2ea7''),
             (''timestamp'', sample_timestamp),
             (''telemetry'', JObj [(''timestamp'', sample_timestamp), (''gps'', sample_gps)])],
     now_recorded = JNum (Fin 1600000000123),
     now_failed = JNum (Fin 1600000000125)\<rparr>"

text \<open>A runtime whose \<^verbatim>\<open>toLowerCase\<close> lowers the ASCII capitals and keeps every other character.\<close>

definition sample_runtime :: runtime where
  "sample_runtime = \<lparr>toLowerCase = map ascii_lower\<rparr>"

text \<open>
  The sample event with telemetry whose latitude is 0: its trip id is a UUID, and its
  telemetry is refused.
\<close>

definition sample_event_zero_lat :: VehicleEvent where
  "sample_event_zero_lat =
    sample_event\<lparr>telemetry :=
      JObj [(''device_id'', sample_device_id), (''timestamp'', sample_timestamp),
            (''gps'', JObj [(''lat'', JNum (Fin 0)), (''lng'', JNum (Fin (- 118)))])]\<rparr>"

text \<open>Every call on the cache and on the stream throws.\<close>

definition all_down :: faults where
  "all_down c = True"

definition none_down :: faults where
  "none_down c = False"

text \<open>
  Telemetry with a latitude of 0, a longitude out of range, a charge of 700 percent and a
  timestamp that is no number: four checks fail, the latitude is the first of them.
\<close>

definition sample_bad_telemetry :: jsval where
  "sample_bad_telemetry =
    JObj [(''device_id'', sample_device_id), (''timestamp'', JStr ''soon''),
          (''charge'', JNum (Fin 7)),
          (''gps'', JObj [(''lat'', JNum (Fin 0)), (''lng'', JNum (Fin 500))])]"

text \<open>
  Telemetry whose latitude is a value that JavaScript cannot write: the JSON object
  \<^verbatim>\<open>{"toString": 1}\<close>.
\<close>

definition sample_unwritable_telemetry :: jsval where
  "sample_unwritable_telemetry =
    JObj [(''device_id'', sample_device_id), (''timestamp'', sample_timestamp),
          (''gps'', JObj [(''lat'', JObj [(''toString'', JNum (Fin 1))]),
                          (''lng'', JNum (Fin (- 118)))])]"

text \<open>Telemetry that is in order but for its heading, the string \<^verbatim>\<open>"north"\<close>.\<close>

definition sample_heading_telemetry :: jsval where
  "sample_heading_telemetry =
    JObj [(''device_id'', sample_device_id), (''timestamp'', sample_timestamp),
          (''gps'', JObj [(''lat'', JNum (Fin 34)), (''lng'', JNum (Fin (- 118))),
                          (''heading'', JStr ''north'')])]"

text \<open>Telemetry whose \<^verbatim>\<open>gps\<close> is \<^verbatim>\<open>null\<close>.\<close>

definition sample_null_gps_telemetry :: jsval where
  "sample_null_gps_telemetry =
    JObj [(''device_id'', sample_device_id), (''timestamp'', sample_timestamp),
          (''gps'', JNull)]"

text \<open>
  Variations of the sample event: without telemetry and trip id; a taxi event
  \<^verbatim>\<open>trip_stop\<close> into the state \<^verbatim>\<open>stopped\<close> without trip id and trip state, and the same
  with a trip id; the sample event with an empty trip id, and with one that is no UUID.
\<close>

definition sample_event_without_telemetry :: VehicleEvent where
  "sample_event_without_telemetry = sample_event\<lparr>telemetry := JNull, trip_id := JUndefined\<rparr>"

definition sample_taxi_event :: VehicleEvent where
  "sample_taxi_event =
    sample_event\<lparr>event_types := JArr [JStr ''trip_stop''], vehicle_state := JStr ''stopped'',
                 trip_id := JUndefined, trip_state := JNull\<rparr>"

definition sample_taxi_trip_event :: VehicleEvent where
  "sample_taxi_trip_event =
    sample_taxi_event\<lparr>trip_id := JStr ''1f981864-cc17-40cf-aea3-70fd985e2ea7''\<rparr>"

text \<open>The taxi event with a trip id, and with a trip state that is no trip state.\<close>

definition sample_taxi_trip_event_bad_state :: VehicleEvent where
  "sample_taxi_trip_event_bad_state = sample_taxi_trip_event\<lparr>trip_state := JStr ''flying''\<rparr>"

definition sample_event_without_trip_id :: VehicleEvent where
  "sample_event_without_trip_id = sample_event\<lparr>trip_id := JStr ''''\<rparr>"

definition sample_event_bad_trip_id :: VehicleEvent where
  "sample_event_bad_trip_id = sample_event\<lparr>trip_id := JStr ''T1''\<rparr>"

text \<open>
  The sample request with its event type in capitals, and with its vehicle state in
  capitals.
\<close>

definition sample_request_upper :: request where
  "sample_request_upper =
    sample_request\<lparr>req_body := put (req_body sample_request) ''event_types''
                                  (JArr [JStr ''TRIP_START''])\<rparr>"

definition sample_request_upper_state :: request where
  "sample_request_upper_state =
    sample_request\<lparr>req_body := put (req_body sample_request) ''vehicle_state''
                                  (JStr ''ON_TRIP'')\<rparr>"

text \<open>The sample request with telemetry whose \<^verbatim>\<open>gps\<close> is \<^verbatim>\<open>null\<close>.\<close>

definition sample_request_null_gps :: request where
  "sample_request_null_gps =
    sample_request\<lparr>req_body := put (req_body sample_request) ''telemetry''
                                  (JObj [(''timestamp'', sample_timestamp), (''gps'', JNull)])\<rparr>"

section \<open>Properties\<close>

subsection \<open>The sample helpers, evaluated\<close>

lemma sample_isUUID:
  "isUUID sample_utils x =
    (case x of
       JStr s \<Rightarrow> list_all2 (\<lambda>c m. if m = CHR ''-'' then c = CHR ''-'' else hex_digit c)
                   s ''xxxxxxxx-xxxx-xxxx-xxxx-xxxxxxxxxxxx''
     | _ \<Rightarrow> False)"
  by (simp add: sample_utils_def)

lemma sample_isPct [simp]:
  "isPct sample_utils x = (case x of JNum (Fin r) \<Rightarrow> 0 \<le> r \<and> r \<le> 1 | _ \<Rightarrow> False)"
  by (simp add: sample_utils_def)

lemma sample_isTimestamp [simp]:
  "isTimestamp sample_utils x =
    (case x of
       JNum (Fin r) \<Rightarrow> rat_of_int \<lfloor>r\<rfloor> = r \<and> 1000000000000 \<le> r \<and> r < 10000000000000
     | _ \<Rightarrow> False)"
  by (simp add: sample_utils_def)

lemma sample_isFloat [simp]:
  "isFloat sample_utils x = (case x of JNum (Fin r) \<Rightarrow> True | _ \<Rightarrow> False)"
  by (simp add: sample_utils_def)

lemma sample_device_id_isUUID [simp]: "isUUID sample_utils sample_device_id"
  by (simp add: sample_isUUID sample_device_id_def hex_digit_def)

subsection \<open>Error templates\<close>

lemma bad_param_template_not_null [simp]: "bad_param_template a x b \<noteq> Inr None"
  by (simp add: bad_param_template_def)

lemma bad_param_template_writes:
  "\<not> ToString_throws x \<Longrightarrow> bad_param_template a x b = Inr (Some (bad_param (Tmpl a x b)))"
  by (simp add: bad_param_template_def)

lemma writable_simps [simp]:
  "writable None"
  "writable (Some (missing_param (Lit s)))"
  "writable (Some (bad_param (Lit s)))"
  "writable (Some (bad_param (Tmpl a x b))) = (\<not> ToString_throws x)"
  by (simp_all add: writable_def missing_param_def bad_param_def)

subsection \<open>Telemetry validation\<close>

text \<open>The test on a coordinate (lines 227-233 and 239-245) is the negation of "in range".\<close>

lemma coord_check:
  "(typeof x \<noteq> TNumber \<or> Number_isNaN x \<or> js_lt x (- b) \<or> js_gt x b \<or> js_eq_num x 0)
     \<longleftrightarrow> \<not> in_range b x"
proof (cases x)
  case (JNum n)
  then show ?thesis by (cases n) auto
qed auto

lemma get_falsy: "\<not> truthy t \<Longrightarrow> get t k = JUndefined"
  by (cases t) auto

lemma get_not_object: "typeof g \<noteq> TObject \<Longrightarrow> get g k = JUndefined"
  by (cases g) auto

lemma badTelemetry_null_iff: "badTelemetry u t = Inr None \<longleftrightarrow> telemetry_ok u t"
proof (cases "truthy t")
  case False
  then show ?thesis by (simp add: badTelemetry_def telemetry_ok_def get_falsy)
next
  case True
  show ?thesis
  proof (cases "typeof (get t ''gps'') = TObject \<and> get t ''gps'' \<noteq> JNull")
    case False
    then have "get (get t ''gps'') ''lat'' = JUndefined"
      by (auto simp: get_not_object)
    with True False show ?thesis
      by (auto simp add: badTelemetry_def telemetry_ok_def Let_def)
  next
    case g: True
    with True show ?thesis
      unfolding badTelemetry_def telemetry_ok_def Let_def coord_check optional_ok_def present_def
      by auto
  qed
qed

lemma renders_null: "renders (first_failure []) (Inr None)"
  by (simp add: renders_def first_failure_def)

lemma renders_missing_param:
  "renders (Some (missing_param (Lit s))) (Inr (Some (missing_param (Lit s))))"
  by (simp add: renders_def)

lemma renders_bad_param: "renders (Some (bad_param (Tmpl a x b))) (bad_param_template a x b)"
  by (simp add: renders_def bad_param_template_def)

lemma renders_check:
  "renders (Some e) a \<Longrightarrow> renders (first_failure cs) b
    \<Longrightarrow> renders (first_failure ((c, e) # cs)) (if c then a else b)"
  by (simp add: first_failure_def)

lemma badTelemetry_chain:
  assumes "get t ''gps'' \<noteq> JNull"
  shows "badTelemetry u t =
    (if \<not> truthy t then Inr (Some (missing_param (Lit ''invalid missing telemetry'')))
     else if typeof (get t ''gps'') \<noteq> TObject
       then Inr (Some (missing_param (Lit ''invalid missing gps'')))
     else if \<not> isUUID u (get t ''device_id'')
       then Inr (Some (missing_param (Lit ''no device_id included in telemetry'')))
     else if \<not> in_range 90 (get (get t ''gps'') ''lat'')
       then bad_param_template ''invalid lat '' (get (get t ''gps'') ''lat'') ''''
     else if \<not> in_range 180 (get (get t ''gps'') ''lng'')
       then bad_param_template ''invalid lng '' (get (get t ''gps'') ''lng'') ''''
     else if \<not> optional_ok (isFloat u) (get (get t ''gps'') ''altitude'')
       then bad_param_template ''invalid altitude '' (get (get t ''gps'') ''altitude'') ''''
     else if \<not> optional_ok (isFloat u) (get (get t ''gps'') ''accuracy'')
       then bad_param_template ''invalid accuracy '' (get (get t ''gps'') ''accuracy'') ''''
     else if \<not> optional_ok (isFloat u) (get (get t ''gps'') ''speed'')
       then bad_param_template ''invalid speed '' (get (get t ''gps'') ''speed'') ''''
     else if \<not> optional_ok Number_isInteger (get (get t ''gps'') ''satellites'')
       then bad_param_template ''invalid satellites '' (get (get t ''gps'') ''satellites'') ''''
     else if \<not> optional_ok (isPct u) (get t ''charge'')
       then bad_param_template ''invalid charge '' (get t ''charge'') ''''
     else if \<not> isTimestamp u (get t ''timestamp'')
       then bad_param_template ''invalid timestamp '' (get t ''timestamp'')
              '' (note: should be in milliseconds)''
     else Inr None)"
  using assms
  unfolding badTelemetry_def Let_def coord_check optional_ok_def present_def
  by (simp cong: if_cong)

lemma badTelemetry_renders:
  assumes "get t ''gps'' \<noteq> JNull"
  shows "renders (first_failure (telemetry_checks u t)) (badTelemetry u t)"
  unfolding badTelemetry_chain [OF assms] telemetry_checks_def Let_def
  by (intro renders_check renders_null renders_missing_param renders_bad_param)

text \<open>
  C1, as the code has it. For every telemetry value, \<^verbatim>\<open>badTelemetry\<close> returns \<^verbatim>\<open>null\<close> if and
  only if the latitude is a number in \<open>[-90, 90]\<close> other than 0, the longitude a number in
  \<open>[-180, 180]\<close> other than 0, the device id a UUID, the timestamp a millisecond timestamp,
  and each of altitude, accuracy, speed (floats), satellites (an integer) and charge (a
  percentage) absent, \<^verbatim>\<open>null\<close> or well-formed; the heading is not looked at. Unless \<^verbatim>\<open>gps\<close>
  is \<^verbatim>\<open>null\<close>, the result is the error of the first failing check in the order missing
  telemetry, gps, device id, lat, lng, altitude, accuracy, speed, satellites, charge,
  timestamp, provided the value that this error names in its description has a string.
\<close>

theorem badTelemetry_first_failing_check:
  "(badTelemetry u t = Inr None \<longleftrightarrow> telemetry_ok u t) \<and>
   (get t ''gps'' \<noteq> JNull \<and> writable (first_failure (telemetry_checks u t))
      \<longrightarrow> badTelemetry u t = Inr (first_failure (telemetry_checks u t)))"
  using badTelemetry_null_iff [of u t] badTelemetry_renders [of t u]
  by (simp add: renders_def)

theorem badTelemetry_first_failing_check_witness:
  "get sample_bad_telemetry ''gps'' \<noteq> JNull \<and>
   writable (first_failure (telemetry_checks sample_utils sample_bad_telemetry)) \<and>
   first_failure (telemetry_checks sample_utils sample_bad_telemetry)
     = Some (bad_param (Tmpl ''invalid lat '' (JNum (Fin 0)) '''')) \<and>
   badTelemetry sample_utils sample_bad_telemetry
     = Inr (Some (bad_param (Tmpl ''invalid lat '' (JNum (Fin 0)) '''')))"
proof -
  have g: "get sample_bad_telemetry ''gps'' \<noteq> JNull"
    by (simp add: sample_bad_telemetry_def)
  have f: "first_failure (telemetry_checks sample_utils sample_bad_telemetry)
          = Some (bad_param (Tmpl ''invalid lat '' (JNum (Fin 0)) ''''))"
    by (simp add: sample_bad_telemetry_def first_failure_def telemetry_checks_def)
  from g f badTelemetry_first_failing_check [of sample_utils sample_bad_telemetry]
  show ?thesis by simp
qed

text \<open>
  When the value has no string the template of the error throws: the telemetry whose
  latitude is the object \<^verbatim>\<open>{"toString": 1}\<close> fails the check of the latitude, and
  \<^verbatim>\<open>badTelemetry\<close> throws a \<^verbatim>\<open>TypeError\<close> where it would return the error.
\<close>

lemma badTelemetry_unwritable_throws:
  "get t ''gps'' \<noteq> JNull \<Longrightarrow> \<not> writable (first_failure (telemetry_checks u t))
    \<Longrightarrow> badTelemetry u t = Inl (TypeError ''Cannot convert object to primitive value'')"
  using badTelemetry_renders [of t u] by (simp add: renders_def)

lemma badTelemetry_unwritable_throws_witness:
  "badTelemetry sample_utils sample_unwritable_telemetry
     = Inl (TypeError ''Cannot convert object to primitive value'')"
proof -
  have g: "get sample_unwritable_telemetry ''gps'' \<noteq> JNull"
    by (simp add: sample_unwritable_telemetry_def)
  have f: "first_failure (telemetry_checks sample_utils sample_unwritable_telemetry)
          = Some (bad_param (Tmpl ''invalid lat '' (JObj [(''toString'', JNum (Fin 1))]) ''''))"
    by (simp add: sample_unwritable_telemetry_def first_failure_def telemetry_checks_def)
  from g f badTelemetry_unwritable_throws [of sample_unwritable_telemetry sample_utils]
  show ?thesis by simp
qed

text \<open>
  C1 as the claim states it counts the heading among the optional fields that must be
  well-formed: telemetry with the heading \<^verbatim>\<open>"north"\<close> is accepted all the same.
\<close>

theorem badTelemetry_ignores_heading:
  "badTelemetry sample_utils sample_heading_telemetry = Inr None \<and>
   \<not> telemetry_ok_with_heading sample_utils sample_heading_telemetry"
  by (simp add: sample_heading_telemetry_def badTelemetry_def telemetry_ok_with_heading_def
      optional_ok_def present_def sample_timestamp_def Let_def)

text \<open>
  C7 says that \<^verbatim>\<open>badTelemetry\<close> never throws and answers \<^verbatim>\<open>missing_param\<close> when \<^verbatim>\<open>gps\<close> is
  \<^verbatim>\<open>null\<close>. On telemetry whose \<^verbatim>\<open>gps\<close> is \<^verbatim>\<open>null\<close> the test \<^verbatim>\<open>typeof gps !== 'object'\<close> lets
  the value through and the function throws a \<^verbatim>\<open>TypeError\<close>, whatever the helpers are.
\<close>

theorem badTelemetry_throws_on_null_gps:
  "badTelemetry u sample_null_gps_telemetry
     = Inl (TypeError ''Cannot destructure property 'altitude' of 'gps' as it is null.'')"
  by (simp add: sample_null_gps_telemetry_def badTelemetry_def)

text \<open>
  Through the handler: the sample request with such telemetry is answered with 500 and
  \<^verbatim>\<open>server_error\<close>, where a missing \<^verbatim>\<open>gps\<close> is answered with 400 and \<^verbatim>\<open>missing_param\<close>.
\<close>

theorem badTelemetry_throws_on_null_gps_witness:
  "badTelemetry sample_utils sample_null_gps_telemetry
     = Inl (TypeError ''Cannot destructure property 'altitude' of 'gps' as it is null.'') \<and>
   response (submitVehicleEvent sample_runtime sample_utils sample_vocab none_down
               sample_request_null_gps sample_store)
     = Some \<lparr>status = 500, body = ErrorBody agencyServerError\<rparr>"
proof -
  have "response (submitVehicleEvent sample_runtime sample_utils sample_vocab none_down
               sample_request_null_gps sample_store)
     = Some \<lparr>status = 500, body = ErrorBody agencyServerError\<rparr>"
    by code_simp
  with badTelemetry_throws_on_null_gps [of sample_utils] show ?thesis by simp
qed

lemma map_of_filter_key:
  "map_of (filter (\<lambda>kv. fst kv \<noteq> k) kvs) k' = (if k' = k then None else map_of kvs k')"
  by (induction kvs) auto

lemma is_object_put [simp]: "is_object (put obj k x) = is_object obj"
  by (cases obj) simp_all

lemma get_put_same [simp]: "is_object obj \<Longrightarrow> get (put obj k x) k = x"
  by (cases obj) simp_all

lemma get_put_other [simp]: "k' \<noteq> k \<Longrightarrow> get (put obj k x) k' = get obj k'"
  by (cases obj) (simp_all add: map_of_filter_key)

subsection \<open>The composite view\<close>

text \<open>
  C9. With an event, the composite has the state, the event types (as \<^verbatim>\<open>prev_events\<close>) and
  the timestamp (as \<^verbatim>\<open>updated\<close>) of the event; without one, the state \<^verbatim>\<open>'removed'\<close> and the
  previous events \<^verbatim>\<open>['decommissioned']\<close>. Its \<^verbatim>\<open>gps\<close> is that of the telemetry when there is
  telemetry with a \<^verbatim>\<open>gps\<close>, and otherwise what the copy of the device has under that name
  (\<^verbatim>\<open>undefined\<close> for a device without such a property).
\<close>

theorem computeCompositeVehicleData_fields:
  "(case event of
      Some e \<Rightarrow>
        get (computeCompositeVehicleData device event tel) ''state'' = vehicle_state e \<and>
        get (computeCompositeVehicleData device event tel) ''prev_events'' = event_types e \<and>
        get (computeCompositeVehicleData device event tel) ''updated'' = timestamp e
    | None \<Rightarrow>
        get (computeCompositeVehicleData device event tel) ''state'' = JStr ''removed'' \<and>
        get (computeCompositeVehicleData device event tel) ''prev_events''
          = JArr [JStr ''decommissioned'']) \<and>
   get (computeCompositeVehicleData device event tel) ''gps''
     = (if truthy tel \<and> truthy (get tel ''gps'') then get tel ''gps''
        else get (JObj (spread device)) ''gps'')"
  by (cases event) (simp_all add: computeCompositeVehicleData_def Let_def del: put.simps get.simps)

theorem computeCompositeVehicleData_fields_witness:
  "get (computeCompositeVehicleData sample_device (Some sample_event) sample_telemetry) ''state''
     = JStr ''on_trip'' \<and>
   get (computeCompositeVehicleData sample_device (Some sample_event) sample_telemetry) ''prev_events''
     = JArr [JStr ''trip_start''] \<and>
   get (computeCompositeVehicleData sample_device (Some sample_event) sample_telemetry) ''updated''
     = sample_timestamp \<and>
   get (computeCompositeVehicleData sample_device (Some sample_event) sample_telemetry) ''gps''
     = sample_gps \<and>
   get (computeCompositeVehicleData sample_device None JUndefined) ''state'' = JStr ''removed'' \<and>
   get (computeCompositeVehicleData sample_device None JUndefined) ''prev_events''
     = JArr [JStr ''decommissioned''] \<and>
   get (computeCompositeVehicleData sample_device None JUndefined) ''gps'' = JUndefined"
  using computeCompositeVehicleData_fields [where event = "Some sample_event" and device = sample_device
        and tel = sample_telemetry]
    computeCompositeVehicleData_fields [where event = None and device = sample_device and tel = JUndefined]
  by (simp add: sample_event_def sample_telemetry_def sample_device_def sample_gps_def)

subsection \<open>Event validation\<close>

text \<open>\<^verbatim>\<open>case r of null \<Rightarrow> a | r \<Rightarrow> r\<close>, as a conditional.\<close>

lemma case_null:
  "(case x of Inl t \<Rightarrow> f (Inl t) | Inr None \<Rightarrow> a | Inr (Some err) \<Rightarrow> f (Inr (Some err)))
     = (if x = Inr None then a else f x)"
  by (simp split: sum.splits option.splits)

lemma vocabulary_check_None:
  "vocabulary_check evs sts e = Inr None \<longleftrightarrow>
     list_all (Array_includes evs) (elements (event_types e)) \<and> Array_includes sts (vehicle_state e)"
proof (cases "find (\<lambda>event_type. \<not> Array_includes evs event_type) (elements (event_types e))")
  case None
  then have "list_all (Array_includes evs) (elements (event_types e))"
    by (auto simp: find_None_iff list_all_iff)
  with None show ?thesis
    by (simp add: vocabulary_check_def)
next
  case (Some x)
  then have "x \<in> set (elements (event_types e))" and "\<not> Array_includes evs x"
    by (auto simp: find_Some_iff)
  with Some show ?thesis
    by (auto simp: vocabulary_check_def list_all_iff)
qed

lemma badEvent_well_shaped:
  "well_shaped u e \<Longrightarrow>
   badEvent u v m e = (if modality_check v m e = Inr None then trip_checks u e
                       else (modality_check v m e, e))"
  unfolding badEvent_def case_null [where f = "\<lambda>r. (r, e)"]
  by (cases "event_types e") (auto simp: well_shaped_def)

lemma badEvent_modality_check:
  "modality_check v m e \<noteq> Inr None \<Longrightarrow> fst (badEvent u v m e) \<noteq> Inr None"
  unfolding badEvent_def case_null [where f = "\<lambda>r. (r, e)"]
  by simp

lemma modality_check_taxi_tnc:
  "m = JStr ''taxi'' \<or> m = JStr ''tnc'' \<Longrightarrow>
   modality_check v m e =
     (if vocabulary_check (legal_events v m) (legal_states v m) e = Inr None
      then trip_state_check (TRIP_STATES v) (trip_exit_events v m) e
      else vocabulary_check (legal_events v m) (legal_states v m) e)"
  unfolding modality_check_def case_null [where f = "\<lambda>r. r"]
  by (auto simp: legal_events_def legal_states_def trip_exit_events_def)

lemma trip_checks_accepts:
  "fst (trip_checks u e) = Inr None \<longleftrightarrow>
     (absent (trip_id e) \<or> isUUID u (trip_id e)) \<and>
     (if areThereCommonElements trip_boundary_events (event_types e)
      then badTelemetry u (telemetry e) = Inr None \<and> truthy (trip_id e)
      else JStr ''provider_drop_off'' \<in> set (elements (event_types e))
           \<longrightarrow> badTelemetry u (telemetry e) = Inr None)"
  by (auto simp: trip_checks_def Let_def absent_def trip_boundary_events_def or_else_def
      missingTripId_def split: sum.splits option.splits)

text \<open>
  C2, as the code has it. A micromobility event with a valid timestamp and a non-empty
  array of event types is accepted if and only if its event types and its vehicle state
  are in the micromobility vocabulary, its trip id is absent or a UUID, and, when its
  event types include one of \<^verbatim>\<open>trip_start\<close>, \<^verbatim>\<open>trip_end\<close>, \<^verbatim>\<open>trip_enter_jurisdiction\<close>,
  \<^verbatim>\<open>trip_leave_jurisdiction\<close>, its telemetry is valid and it has a trip id, or, when they
  include \<^verbatim>\<open>provider_drop_off\<close>, its telemetry is valid. (No vehicle state is the empty
  string.)
\<close>

theorem badEvent_micromobility_accepts:
  assumes "timestamp e \<noteq> JUndefined" and "isTimestamp u (timestamp e)"
    and "Array_isArray (event_types e)" and "elements (event_types e) \<noteq> []"
    and "'''' \<notin> set (MICRO_MOBILITY_VEHICLE_STATES v)"
  shows "fst (badEvent u v (JStr ''micromobility'') e) = Inr None \<longleftrightarrow>
     in_vocabulary v (JStr ''micromobility'') e \<and>
     (absent (trip_id e) \<or> isUUID u (trip_id e)) \<and>
     (if areThereCommonElements trip_boundary_events (event_types e)
      then badTelemetry u (telemetry e) = Inr None \<and> truthy (trip_id e)
      else JStr ''provider_drop_off'' \<in> set (elements (event_types e))
           \<longrightarrow> badTelemetry u (telemetry e) = Inr None)"
proof (cases "truthy (vehicle_state e)")
  case True
  with assms have ws: "well_shaped u e" by (simp add: well_shaped_def)
  have mc: "modality_check v (JStr ''micromobility'') e = Inr None \<longleftrightarrow>
              in_vocabulary v (JStr ''micromobility'') e"
    by (simp add: modality_check_def vocabulary_check_None in_vocabulary_def legal_events_def
        legal_states_def)
  show ?thesis
  proof (cases "modality_check v (JStr ''micromobility'') e = Inr None")
    case True
    with ws mc trip_checks_accepts [of u e] show ?thesis
      by (simp add: badEvent_well_shaped)
  next
    case False
    with ws mc show ?thesis by (simp add: badEvent_well_shaped)
  qed
next
  case False
  with assms(5) have "\<not> Array_includes (MICRO_MOBILITY_VEHICLE_STATES v) (vehicle_state e)"
    by (cases "vehicle_state e") auto
  moreover from False assms have "fst (badEvent u v (JStr ''micromobility'') e) \<noteq> Inr None"
    by (cases "event_types e") (auto simp: badEvent_def)
  ultimately show ?thesis
    by (simp add: in_vocabulary_def legal_states_def)
qed

theorem badEvent_micromobility_accepts_witness:
  "fst (badEvent sample_utils sample_vocab (JStr ''micromobility'') sample_event) = Inr None"
proof -
  have "timestamp sample_event \<noteq> JUndefined" by code_simp
  moreover have "isTimestamp sample_utils (timestamp sample_event)" by code_simp
  moreover have "Array_isArray (event_types sample_event)" by code_simp
  moreover have "elements (event_types sample_event) \<noteq> []" by code_simp
  moreover have "'''' \<notin> set (MICRO_MOBILITY_VEHICLE_STATES sample_vocab)" by code_simp
  moreover have "in_vocabulary sample_vocab (JStr ''micromobility'') sample_event" by code_simp
  moreover have "isUUID sample_utils (trip_id sample_event)" by code_simp
  moreover have "areThereCommonElements trip_boundary_events (event_types sample_event)"
    by code_simp
  moreover have "badTelemetry sample_utils (telemetry sample_event) = Inr None" by code_simp
  moreover have "truthy (trip_id sample_event)" by code_simp
  ultimately show ?thesis
    using badEvent_micromobility_accepts [of sample_event sample_utils sample_vocab] by simp
qed

text \<open>
  C2 as the claim states it makes the vocabulary sufficient: a \<^verbatim>\<open>trip_start\<close> into the
  state \<^verbatim>\<open>on_trip\<close> with a valid timestamp is in the vocabulary, and rejected for its missing
  telemetry.
\<close>

theorem badEvent_micromobility_vocabulary_not_enough:
  "isTimestamp sample_utils (timestamp sample_event_without_telemetry) \<and>
   elements (event_types sample_event_without_telemetry) = [JStr ''trip_start''] \<and>
   in_vocabulary sample_vocab (JStr ''micromobility'') sample_event_without_telemetry \<and>
   fst (badEvent sample_utils sample_vocab (JStr ''micromobility'') sample_event_without_telemetry)
     = Inr (Some (missing_param (Lit ''invalid missing telemetry'')))"
  by code_simp

text \<open>
  C3, as the code has it. For the modalities taxi and tnc, an event that has a trip id,
  whose vehicle state is one of the trip states and whose event types have nothing in
  common with the trip-exit events of the modality, and whose trip state is no legal trip
  state, is not accepted; when it has passed the checks before that one, the result is
  the error \<^verbatim>\<open>missing_param\<close> for a trip state that is not there, and the error \<^verbatim>\<open>bad_param\<close>
  "invalid trip_state ..." for one that is there and has a string.
\<close>

theorem badEvent_trip_state_required:
  assumes "m = JStr ''taxi'' \<or> m = JStr ''tnc''"
    and "truthy (trip_id e)"
    and "Array_includes (TRIP_STATES v) (vehicle_state e)"
    and "\<not> areThereCommonElements (trip_exit_events v m) (event_types e)"
    and "\<not> Array_includes (TRIP_STATES v) (trip_state e)"
  shows \<open>fst (badEvent u v m e) \<noteq> Inr None \<and>
         (well_shaped u e \<and> in_vocabulary v m e \<longrightarrow>
            (\<not> truthy (trip_state e) \<longrightarrow>
               fst (badEvent u v m e) =
                 Inr (Some (missing_param
                              (Lit ''missing enum field "trip_state" required on trip events'')))) \<and>
            (truthy (trip_state e) \<and> \<not> ToString_throws (trip_state e) \<longrightarrow>
               fst (badEvent u v m e) =
                 Inr (Some (bad_param (Tmpl ''invalid trip_state '' (trip_state e) '''')))))\<close>
proof -
  from assms have ts: \<open>trip_state_check (TRIP_STATES v) (trip_exit_events v m) e =
      (if \<not> truthy (trip_state e)
       then Inr (Some (missing_param
                         (Lit ''missing enum field "trip_state" required on trip events'')))
       else bad_param_template ''invalid trip_state '' (trip_state e) '''')\<close>
    by (simp add: trip_state_check_def)
  then have ts': "trip_state_check (TRIP_STATES v) (trip_exit_events v m) e \<noteq> Inr None"
    by simp
  note mc = modality_check_taxi_tnc [OF assms(1), of v e]
  from mc ts' have "modality_check v m e \<noteq> Inr None"
    by (cases "vocabulary_check (legal_events v m) (legal_states v m) e = Inr None") simp_all
  then have rejected: "fst (badEvent u v m e) \<noteq> Inr None"
    by (rule badEvent_modality_check)
  have passed: "fst (badEvent u v m e) = trip_state_check (TRIP_STATES v) (trip_exit_events v m) e"
    if "well_shaped u e" and "in_vocabulary v m e"
  proof -
    from that(2) have "vocabulary_check (legal_events v m) (legal_states v m) e = Inr None"
      by (simp add: vocabulary_check_None in_vocabulary_def)
    with mc have "modality_check v m e = trip_state_check (TRIP_STATES v) (trip_exit_events v m) e"
      by simp
    with that(1) ts' show ?thesis by (simp add: badEvent_well_shaped)
  qed
  from rejected passed show ?thesis
    unfolding ts by (simp add: bad_param_template_writes)
qed

theorem badEvent_trip_state_required_witness:
  \<open>fst (badEvent sample_utils sample_vocab (JStr ''taxi'') sample_taxi_trip_event)
     = Inr (Some (missing_param (Lit ''missing enum field "trip_state" required on trip events''))) \<and>
   fst (badEvent sample_utils sample_vocab (JStr ''taxi'') sample_taxi_trip_event_bad_state)
     = Inr (Some (bad_param (Tmpl ''invalid trip_state '' (JStr ''flying'') '''')))\<close>
proof -
  have "truthy (trip_id sample_taxi_trip_event)" by code_simp
  moreover have "Array_includes (TRIP_STATES sample_vocab) (vehicle_state sample_taxi_trip_event)"
    by code_simp
  moreover have "\<not> areThereCommonElements (trip_exit_events sample_vocab (JStr ''taxi''))
                    (event_types sample_taxi_trip_event)"
    by code_simp
  moreover have "\<not> Array_includes (TRIP_STATES sample_vocab) (trip_state sample_taxi_trip_event)"
    by code_simp
  moreover have "well_shaped sample_utils sample_taxi_trip_event" by code_simp
  moreover have "in_vocabulary sample_vocab (JStr ''taxi'') sample_taxi_trip_event" by code_simp
  moreover have "\<not> truthy (trip_state sample_taxi_trip_event)" by code_simp
  ultimately have absent:
    \<open>fst (badEvent sample_utils sample_vocab (JStr ''taxi'') sample_taxi_trip_event)
     = Inr (Some (missing_param (Lit ''missing enum field "trip_state" required on trip events'')))\<close>
    using badEvent_trip_state_required [of "JStr ''taxi''" sample_taxi_trip_event sample_vocab
        sample_utils]
    by simp
  have "truthy (trip_id sample_taxi_trip_event_bad_state)" by code_simp
  moreover have "Array_includes (TRIP_STATES sample_vocab)
                   (vehicle_state sample_taxi_trip_event_bad_state)"
    by code_simp
  moreover have "\<not> areThereCommonElements (trip_exit_events sample_vocab (JStr ''taxi''))
                    (event_types sample_taxi_trip_event_bad_state)"
    by code_simp
  moreover have "\<not> Array_includes (TRIP_STATES sample_vocab)
                     (trip_state sample_taxi_trip_event_bad_state)"
    by code_simp
  moreover have "well_shaped sample_utils sample_taxi_trip_event_bad_state" by code_simp
  moreover have "in_vocabulary sample_vocab (JStr ''taxi'') sample_taxi_trip_event_bad_state"
    by code_simp
  moreover have "trip_state sample_taxi_trip_event_bad_state = JStr ''flying''" by code_simp
  ultimately have illegal:
    "fst (badEvent sample_utils sample_vocab (JStr ''taxi'') sample_taxi_trip_event_bad_state)
     = Inr (Some (bad_param (Tmpl ''invalid trip_state '' (JStr ''flying'') '''')))"
    using badEvent_trip_state_required [of "JStr ''taxi''" sample_taxi_trip_event_bad_state
        sample_vocab sample_utils]
    by simp
  from absent illegal show ?thesis by simp
qed

text \<open>
  C3 as the claim states it does not ask for a trip id: a taxi event without trip id and
  without trip state, \<^verbatim>\<open>trip_stop\<close> into the trip state \<^verbatim>\<open>stopped\<close>, is accepted.
\<close>

theorem badEvent_trip_state_not_required_without_trip_id:
  "Array_includes (TRIP_STATES sample_vocab) (vehicle_state sample_taxi_event) \<and>
   \<not> areThereCommonElements (TAXI_TRIP_EXIT_EVENTS sample_vocab) (event_types sample_taxi_event) \<and>
   trip_state sample_taxi_event = JNull \<and>
   fst (badEvent sample_utils sample_vocab (JStr ''taxi'') sample_taxi_event) = Inr None"
  by code_simp



text \<open>No check of the telemetry answers with the error of the trip id.\<close>

lemma badTelemetry_no_trip_id_error:
  "badTelemetry u t \<noteq> Inr (Some (bad_param (Tmpl ''invalid trip_id '' x s)))"
  by (simp add: badTelemetry_def Let_def bad_param_def missing_param_def
      bad_param_template_def)

lemma or_else_no_trip_id_error:
  "or_else (badTelemetry u t) (Inr (missingTripId tid))
     \<noteq> Inr (Some (bad_param (Tmpl ''invalid trip_id '' x s)))"
proof (cases "badTelemetry u t")
  case (Inl a)
  then show ?thesis by (simp add: or_else_def)
next
  case (Inr r)
  show ?thesis
  proof (cases r)
    case None
    with Inr show ?thesis
      by (simp add: or_else_def missingTripId_def missing_param_def bad_param_def)
  next
    case (Some err)
    with Inr badTelemetry_no_trip_id_error [of u t x s] show ?thesis
      by (simp add: or_else_def)
  qed
qed

text \<open>
  C8, as the code has it. For an event of any modality that reaches the checks of the
  trip id: \<^verbatim>\<open>badEvent\<close> leaves the event with the trip id \<^verbatim>\<open>null\<close> when it was the empty
  string; a trip id that is there (not \<^verbatim>\<open>undefined\<close>, \<^verbatim>\<open>null\<close> or the empty string) and no
  UUID is never accepted, and when it has a string the result is the error \<^verbatim>\<open>bad_param\<close>
  "invalid trip_id ... is not a UUID"; and no other event gets an error "invalid trip_id
  ...", whatever value it would name.
\<close>

theorem badEvent_trip_id_check:
  assumes "well_shaped u e" and "modality_check v m e = Inr None"
  shows "trip_id (snd (badEvent u v m e)) = (if trip_id e = JStr '''' then JNull else trip_id e) \<and>
    (\<not> absent (trip_id e) \<and> \<not> isUUID u (trip_id e) \<longrightarrow>
       fst (badEvent u v m e) \<noteq> Inr None \<and>
       (\<not> ToString_throws (trip_id e) \<longrightarrow>
          fst (badEvent u v m e)
            = Inr (Some (bad_param (Tmpl ''invalid trip_id '' (trip_id e) '' is not a UUID''))))) \<and>
    ((\<exists>x s. fst (badEvent u v m e) = Inr (Some (bad_param (Tmpl ''invalid trip_id '' x s))))
       \<longrightarrow> \<not> absent (trip_id e) \<and> \<not> isUUID u (trip_id e))"
proof -
  from assms have be: "badEvent u v m e = trip_checks u e"
    by (simp add: badEvent_well_shaped)
  have "trip_id (snd (trip_checks u e)) = (if trip_id e = JStr '''' then JNull else trip_id e)"
    by (simp add: trip_checks_def Let_def)
  moreover have "fst (trip_checks u e)
         = bad_param_template ''invalid trip_id '' (trip_id e) '' is not a UUID''"
    if "\<not> absent (trip_id e) \<and> \<not> isUUID u (trip_id e)"
    using that by (auto simp: trip_checks_def Let_def absent_def)
  then have "fst (trip_checks u e) \<noteq> Inr None \<and>
       (\<not> ToString_throws (trip_id e) \<longrightarrow>
          fst (trip_checks u e)
            = Inr (Some (bad_param (Tmpl ''invalid trip_id '' (trip_id e) '' is not a UUID''))))"
    if "\<not> absent (trip_id e) \<and> \<not> isUUID u (trip_id e)"
    using that by (simp add: bad_param_template_writes)
  moreover have "(\<exists>x s. fst (trip_checks u e)
            = Inr (Some (bad_param (Tmpl ''invalid trip_id '' x s))))
       \<longrightarrow> \<not> absent (trip_id e) \<and> \<not> isUUID u (trip_id e)"
  proof (cases "\<not> absent (trip_id e) \<and> \<not> isUUID u (trip_id e)")
    case True
    then show ?thesis by simp
  next
    case False
    then have "fst (trip_checks u e) =
       (if areThereCommonElements trip_boundary_events (event_types e)
        then or_else (badTelemetry u (telemetry e))
               (Inr (missingTripId (if trip_id e = JStr '''' then JNull else trip_id e)))
        else if JStr ''provider_drop_off'' \<in> set (elements (event_types e))
        then badTelemetry u (telemetry e) else Inr None)"
      by (auto simp: trip_checks_def Let_def absent_def trip_boundary_events_def)
    moreover have "or_else (badTelemetry u (telemetry e)) (Inr (missingTripId tid))
                     \<noteq> Inr (Some (bad_param (Tmpl ''invalid trip_id '' x s)))"
      for tid x s
      by (rule or_else_no_trip_id_error)
    moreover have "badTelemetry u (telemetry e)
                     \<noteq> Inr (Some (bad_param (Tmpl ''invalid trip_id '' x s)))"
      for x s
      by (rule badTelemetry_no_trip_id_error)
    ultimately have "fst (trip_checks u e)
                     \<noteq> Inr (Some (bad_param (Tmpl ''invalid trip_id '' x s)))"
      for x s
      by simp
    then show ?thesis by simp
  qed
  ultimately show ?thesis unfolding be by blast
qed

theorem badEvent_trip_id_check_witness:
  "trip_id (snd (badEvent sample_utils sample_vocab (JStr ''micromobility'')
                   sample_event_without_trip_id)) = JNull \<and>
   fst (badEvent sample_utils sample_vocab (JStr ''micromobility'') sample_event_bad_trip_id)
     = Inr (Some (bad_param (Tmpl ''invalid trip_id '' (JStr ''T1'') '' is not a UUID'')))"
proof -
  have "well_shaped sample_utils sample_event_without_trip_id" by code_simp
  moreover have "modality_check sample_vocab (JStr ''micromobility'') sample_event_without_trip_id
                   = Inr None"
    by code_simp
  moreover have "trip_id sample_event_without_trip_id = JStr ''''" by code_simp
  ultimately have normalised:
    "trip_id (snd (badEvent sample_utils sample_vocab (JStr ''micromobility'')
                   sample_event_without_trip_id)) = JNull"
    using badEvent_trip_id_check [of sample_utils sample_event_without_trip_id sample_vocab
        "JStr ''micromobility''"]
    by simp
  have "well_shaped sample_utils sample_event_bad_trip_id" by code_simp
  moreover have "modality_check sample_vocab (JStr ''micromobility'') sample_event_bad_trip_id
                   = Inr None"
    by code_simp
  moreover have "trip_id sample_event_bad_trip_id = JStr ''T1''" by code_simp
  moreover have "\<not> absent (JStr ''T1'')" by code_simp
  moreover have "\<not> isUUID sample_utils (JStr ''T1'')" by code_simp
  ultimately have refused:
    "fst (badEvent sample_utils sample_vocab (JStr ''micromobility'') sample_event_bad_trip_id)
     = Inr (Some (bad_param (Tmpl ''invalid trip_id '' (JStr ''T1'') '' is not a UUID'')))"
    using badEvent_trip_id_check [of sample_utils sample_event_bad_trip_id sample_vocab
        "JStr ''micromobility''"]
    by simp
  from normalised refused show ?thesis by simp
qed

text \<open>
  C8 as the claim states it has \<^verbatim>\<open>bad_param\<close> for the events with a trip id that is no UUID
  and for no others. The checks that follow answer \<^verbatim>\<open>bad_param\<close> as well: a \<^verbatim>\<open>trip_start\<close>
  that reaches the checks of the trip id with a trip id that is a UUID, and with telemetry
  whose latitude is 0, is rejected with \<^verbatim>\<open>bad_param\<close> "invalid lat 0".
\<close>

theorem badEvent_bad_param_with_UUID_trip_id:
  "well_shaped sample_utils sample_event_zero_lat \<and>
   modality_check sample_vocab (JStr ''micromobility'') sample_event_zero_lat = Inr None \<and>
   isUUID sample_utils (trip_id sample_event_zero_lat) \<and>
   fst (badEvent sample_utils sample_vocab (JStr ''micromobility'') sample_event_zero_lat)
     = Inr (Some (bad_param (Tmpl ''invalid lat '' (JNum (Fin 0)) ''''))) \<and>
   error (bad_param (Tmpl ''invalid lat '' (JNum (Fin 0)) '''')) = ''bad_param''"
  by code_simp

subsection \<open>Letter case\<close>

lemma ascii_lower_same_letter: "\<not> capital b \<Longrightarrow> ascii_lower a = b \<longleftrightarrow> same_letter a b"
proof (cases "capital a")
  case False
  assume "\<not> capital b"
  with False show ?thesis by (auto simp: ascii_lower_def same_letter_def)
next
  case True
  assume b: "\<not> capital b"
  from True have small: "(of_char a :: nat) + 32 < 256" by (simp add: capital_def)
  have "char_of ((of_char a :: nat) + 32) = b \<longleftrightarrow> (of_char b :: nat) = of_char a + 32"
  proof
    assume "char_of ((of_char a :: nat) + 32) = b"
    then have "(of_char b :: nat) = of_char (char_of ((of_char a :: nat) + 32) :: char)" by simp
    with small show "(of_char b :: nat) = of_char a + 32" by simp
  next
    assume "(of_char b :: nat) = of_char a + 32"
    then have "char_of ((of_char a :: nat) + 32) = (char_of (of_char b :: nat) :: char)" by simp
    then show "char_of ((of_char a :: nat) + 32) = b" by simp
  qed
  with True b show ?thesis by (auto simp: ascii_lower_def same_letter_def)
qed

lemma map_ascii_lower_same_up_to_case:
  "no_capitals w \<Longrightarrow> map ascii_lower s = w \<longleftrightarrow> same_up_to_case s w"
proof (induction s arbitrary: w)
  case Nil
  then show ?case by (auto simp: same_up_to_case_def)
next
  case (Cons a s)
  show ?case
  proof (cases w)
    case Nil
    then show ?thesis by (simp add: same_up_to_case_def)
  next
    case (Cons b w')
    with Cons.prems have "\<not> capital b" and "no_capitals w'" by (simp_all add: no_capitals_def)
    with Cons.IH [of w'] ascii_lower_same_letter [of b a] Cons show ?thesis
      by (simp add: same_up_to_case_def)
  qed
qed

lemma toLowerCase_in_table:
  assumes "lowers_ascii rt" and "is_ascii s" and "list_all no_capitals table"
  shows "toLowerCase rt s \<in> set table \<longleftrightarrow> (\<exists>w \<in> set table. same_up_to_case s w)"
proof -
  from assms(1,2) have "toLowerCase rt s = map ascii_lower s" by (simp add: lowers_ascii_def)
  moreover from assms(3) have "map ascii_lower s = w \<longleftrightarrow> same_up_to_case s w" if "w \<in> set table" for w
    using that by (intro map_ascii_lower_same_up_to_case) (simp add: list_all_iff)
  ultimately show ?thesis by auto
qed

lemma lower_in_table:
  assumes "lowers_ascii rt" and "list_all no_capitals table" and "\<And>s. x = JStr s \<Longrightarrow> is_ascii s"
  shows "Array_includes table (lower rt x)
           \<longleftrightarrow> (\<exists>s w. x = JStr s \<and> w \<in> set table \<and> same_up_to_case s w)"
proof (cases x)
  case (JStr s)
  with assms toLowerCase_in_table [of rt s table] show ?thesis by auto
qed simp_all

lemma sample_runtime_lowers_ascii: "lowers_ascii sample_runtime"
  by (simp add: lowers_ascii_def sample_runtime_def)

subsection \<open>The event handler\<close>

lemma put_not_object: "\<not> is_object b \<Longrightarrow> put b k x = b"
  by (cases b) simp_all

lemma is_object_readable: "is_object b \<Longrightarrow> b \<noteq> JUndefined \<and> b \<noteq> JNull"
  by (cases b) simp_all

text \<open>The event of a request whose body can be read.\<close>

lemma make_event_readable:
  assumes "req_body req \<noteq> JUndefined" and "req_body req \<noteq> JNull"
  shows "\<exists>event. make_event rt req = Inr event"
  using assms by (simp add: make_event_def Let_def)

lemma make_event_fields:
  assumes "make_event rt req = Inr event"
  shows "device_id event = params_device_id req"
    and "vehicle_state event = get (req_body req) ''vehicle_state''"
    and "event_types event =
      (if Array_isArray (get (req_body req) ''event_types'')
       then JArr (map (lower rt) (elements (get (req_body req) ''event_types'')))
       else get (req_body req) ''event_types'')"
proof -
  from assms have ev: "event = projr (make_event rt req)" by simp
  from assms have rd: "req_body req \<noteq> JUndefined" "req_body req \<noteq> JNull"
    by (auto simp: make_event_def Let_def split: if_splits)
  from rd show "device_id event = params_device_id req"
    unfolding ev by (simp add: make_event_def Let_def)
  from rd show "vehicle_state event = get (req_body req) ''vehicle_state''"
    unfolding ev by (simp add: make_event_def Let_def)
  from rd show "event_types event =
      (if Array_isArray (get (req_body req) ''event_types'')
       then JArr (map (lower rt) (elements (get (req_body req) ''event_types'')))
       else get (req_body req) ''event_types'')"
    unfolding ev
    by (cases "get (req_body req) ''event_types''") (simp_all add: make_event_def Let_def)
qed

lemma make_event_event_types:
  "map (lower rt) xs = map (lower rt) ys \<Longrightarrow>
   make_event rt (req\<lparr>req_body := put b ''event_types'' (JArr xs)\<rparr>)
     = make_event rt (req\<lparr>req_body := put b ''event_types'' (JArr ys)\<rparr>)"
proof (cases "is_object b")
  case True
  then have "is_object (put b ''event_types'' (JArr zs))" for zs by simp
  then have rd: "put b ''event_types'' (JArr zs) \<noteq> JUndefined \<and>
                 put b ''event_types'' (JArr zs) \<noteq> JNull" for zs
    by (rule is_object_readable)
  assume "map (lower rt) xs = map (lower rt) ys"
  with True rd [of xs] rd [of ys] show ?thesis
    by (simp add: make_event_def Let_def del: put.simps get.simps)
next
  case False
  then show ?thesis by (simp add: put_not_object)
qed

lemma submitVehicleEvent_make_event:
  assumes "make_event rt req = make_event rt req'"
    and "locals_provider_id req = locals_provider_id req'"
    and "params_device_id req = params_device_id req'"
    and "now_recorded req = now_recorded req'"
    and "now_failed req = now_failed req'"
  shows "submitVehicleEvent rt u v f req s = submitVehicleEvent rt u v f req' s"
proof -
  have f1: "fail f req = fail f req'"
    by (intro ext, unfold fail_def assms(2,5), rule refl)
  have f2: "fan_out f req = fan_out f req'"
    by (intro ext, unfold fan_out_def assms(4), rule refl)
  show ?thesis
    unfolding submitVehicleEvent_def assms f1 f2 by (rule refl)
qed

text \<open>
  The vocabulary check on the event of a request, in terms of the body: each element of
  the \<^verbatim>\<open>event_types\<close> array is a string equal, up to the case of its letters, to a string of
  the table of events, and the \<^verbatim>\<open>vehicle_state\<close> is a string of the table of states.
\<close>

lemma vocabulary_check_make_event:
  assumes rt: "lowers_ascii rt" and table: "list_all no_capitals evs"
    and me: "make_event rt req = Inr event"
    and xs: "get (req_body req) ''event_types'' = JArr xs"
    and ascii: "\<forall>s. JStr s \<in> set xs \<longrightarrow> is_ascii s"
  shows "vocabulary_check evs sts event = Inr None \<longleftrightarrow>
     (\<forall>x \<in> set xs. \<exists>s w. x = JStr s \<and> w \<in> set evs \<and> same_up_to_case s w) \<and>
     (\<exists>s. get (req_body req) ''vehicle_state'' = JStr s \<and> s \<in> set sts)"
proof -
  from make_event_fields(3) [OF me] xs have et: "elements (event_types event) = map (lower rt) xs"
    by simp
  have "Array_includes evs (lower rt x)
           \<longleftrightarrow> (\<exists>s w. x = JStr s \<and> w \<in> set evs \<and> same_up_to_case s w)"
    if "x \<in> set xs" for x
    using rt table
  proof (rule lower_in_table)
    fix s assume "x = JStr s"
    with that ascii show "is_ascii s" by simp
  qed
  then have "list_all (Array_includes evs) (map (lower rt) xs) \<longleftrightarrow>
      (\<forall>x \<in> set xs. \<exists>s w. x = JStr s \<and> w \<in> set evs \<and> same_up_to_case s w)"
    by (simp add: list_all_iff)
  moreover have "Array_includes sts y \<longleftrightarrow> (\<exists>s. y = JStr s \<and> s \<in> set sts)" for y
    by (cases y) simp_all
  ultimately show ?thesis
    by (simp add: vocabulary_check_None et make_event_fields(2) [OF me])
qed

text \<open>
  C10. A request whose body can be read has an event, and the event that
  \<^verbatim>\<open>submitVehicleEvent\<close> builds has the elements of an \<^verbatim>\<open>event_types\<close> array mapped through
  \<^verbatim>\<open>lower\<close> and the \<^verbatim>\<open>vehicle_state\<close> of the body as it came. So, when \<^verbatim>\<open>toLowerCase\<close> lowers
  ASCII, the event types of the body are ASCII and the table of events has no capital
  letter, the vocabulary check accepts the event if and only if every event type of the
  body is a string equal to a string of the table up to the case of its letters, and the
  vehicle state of the body is, letter for letter, a string of the table of states. And
  two requests whose event types agree after \<^verbatim>\<open>lower\<close> end alike (same response, same
  state left), whatever the stores and the vocabulary are.
\<close>

theorem submitVehicleEvent_event_types_case_insensitive:
  "(req_body req \<noteq> JUndefined \<and> req_body req \<noteq> JNull
      \<longrightarrow> (\<exists>built. make_event rt req = Inr built)) \<and>
   (make_event rt req = Inr event \<longrightarrow>
      event_types event =
        (if Array_isArray (get (req_body req) ''event_types'')
         then JArr (map (lower rt) (elements (get (req_body req) ''event_types'')))
         else get (req_body req) ''event_types'') \<and>
      vehicle_state event = get (req_body req) ''vehicle_state'') \<and>
   (make_event rt req = Inr event \<and> lowers_ascii rt \<and> list_all no_capitals evs
      \<and> get (req_body req) ''event_types'' = JArr xs \<and> (\<forall>s. JStr s \<in> set xs \<longrightarrow> is_ascii s)
      \<longrightarrow> (vocabulary_check evs sts event = Inr None \<longleftrightarrow>
             (\<forall>x \<in> set xs. \<exists>s w. x = JStr s \<and> w \<in> set evs \<and> same_up_to_case s w) \<and>
             (\<exists>s. get (req_body req) ''vehicle_state'' = JStr s \<and> s \<in> set sts))) \<and>
   (map (lower rt) ys = map (lower rt) zs \<longrightarrow>
      submitVehicleEvent rt u v f (req\<lparr>req_body := put b ''event_types'' (JArr ys)\<rparr>) s
        = submitVehicleEvent rt u v f (req\<lparr>req_body := put b ''event_types'' (JArr zs)\<rparr>) s)"
proof -
  have "\<exists>built. make_event rt req = Inr built"
    if "req_body req \<noteq> JUndefined \<and> req_body req \<noteq> JNull"
    using that by (intro make_event_readable) simp_all
  moreover have "event_types event =
        (if Array_isArray (get (req_body req) ''event_types'')
         then JArr (map (lower rt) (elements (get (req_body req) ''event_types'')))
         else get (req_body req) ''event_types'') \<and>
      vehicle_state event = get (req_body req) ''vehicle_state''"
    if "make_event rt req = Inr event"
    using make_event_fields(2,3) [OF that] by simp
  moreover have "vocabulary_check evs sts event = Inr None \<longleftrightarrow>
             (\<forall>x \<in> set xs. \<exists>s w. x = JStr s \<and> w \<in> set evs \<and> same_up_to_case s w) \<and>
             (\<exists>s. get (req_body req) ''vehicle_state'' = JStr s \<and> s \<in> set sts)"
    if "make_event rt req = Inr event \<and> lowers_ascii rt \<and> list_all no_capitals evs
      \<and> get (req_body req) ''event_types'' = JArr xs \<and> (\<forall>s. JStr s \<in> set xs \<longrightarrow> is_ascii s)"
    using that by (intro vocabulary_check_make_event [where rt = rt]) simp_all
  moreover have "submitVehicleEvent rt u v f (req\<lparr>req_body := put b ''event_types'' (JArr ys)\<rparr>) s
        = submitVehicleEvent rt u v f (req\<lparr>req_body := put b ''event_types'' (JArr zs)\<rparr>) s"
    if "map (lower rt) ys = map (lower rt) zs"
    using that by (intro submitVehicleEvent_make_event make_event_event_types) simp_all
  ultimately show ?thesis by blast
qed

text \<open>
  On the sample request with the event type \<^verbatim>\<open>TRIP_START\<close>: the vocabulary check accepts
  its event, as \<^verbatim>\<open>trip_start\<close> is in the table, and the request is answered as the one
  with \<^verbatim>\<open>trip_start\<close> is, with 201; with the vehicle state \<^verbatim>\<open>ON_TRIP\<close>, the request is
  refused.
\<close>

theorem submitVehicleEvent_event_types_case_insensitive_witness:
  "(\<exists>event. make_event sample_runtime sample_request_upper = Inr event \<and>
      vocabulary_check (MICRO_MOBILITY_VEHICLE_EVENTS sample_vocab)
        (MICRO_MOBILITY_VEHICLE_STATES sample_vocab) event = Inr None) \<and>
   response (submitVehicleEvent sample_runtime sample_utils sample_vocab none_down
               sample_request_upper sample_store)
     = Some \<lparr>status = 201, body = EventBody sample_device_id (JStr ''on_trip'')\<rparr> \<and>
   response (submitVehicleEvent sample_runtime sample_utils sample_vocab none_down
               sample_request_upper_state sample_store)
     = Some \<lparr>status = 400,
             body = ErrorBody (bad_param (Tmpl ''invalid vehicle_state '' (JStr ''ON_TRIP'') ''''))\<rparr>"
proof -
  note C10 = submitVehicleEvent_event_types_case_insensitive
  have "req_body sample_request_upper \<noteq> JUndefined \<and> req_body sample_request_upper \<noteq> JNull"
    by code_simp
  with C10 [where req = sample_request_upper and rt = sample_runtime]
  obtain event where me: "make_event sample_runtime sample_request_upper = Inr event"
    by blast
  have rt: "lowers_ascii sample_runtime"
    by (rule sample_runtime_lowers_ascii)
  have table: "list_all no_capitals (MICRO_MOBILITY_VEHICLE_EVENTS sample_vocab)"
    by code_simp
  have xs: "get (req_body sample_request_upper) ''event_types'' = JArr [JStr ''TRIP_START'']"
    by code_simp
  have "is_ascii ''TRIP_START''" by code_simp
  then have ascii: "\<forall>s. JStr s \<in> set [JStr ''TRIP_START''] \<longrightarrow> is_ascii s" by simp
  have "''trip_start'' \<in> set (MICRO_MOBILITY_VEHICLE_EVENTS sample_vocab)" by code_simp
  moreover have "same_up_to_case ''TRIP_START'' ''trip_start''" by code_simp
  ultimately have legal:
    "\<forall>x \<in> set [JStr ''TRIP_START''].
       \<exists>s w. x = JStr s \<and> w \<in> set (MICRO_MOBILITY_VEHICLE_EVENTS sample_vocab)
             \<and> same_up_to_case s w"
    by auto
  have "get (req_body sample_request_upper) ''vehicle_state'' = JStr ''on_trip''" by code_simp
  moreover have "''on_trip'' \<in> set (MICRO_MOBILITY_VEHICLE_STATES sample_vocab)" by code_simp
  ultimately have state:
    "\<exists>s. get (req_body sample_request_upper) ''vehicle_state'' = JStr s
          \<and> s \<in> set (MICRO_MOBILITY_VEHICLE_STATES sample_vocab)"
    by simp
  from me rt table xs ascii legal state
  have accepted: "vocabulary_check (MICRO_MOBILITY_VEHICLE_EVENTS sample_vocab)
        (MICRO_MOBILITY_VEHICLE_STATES sample_vocab) event = Inr None"
    using C10 [where req = sample_request_upper and rt = sample_runtime and event = event
        and evs = "MICRO_MOBILITY_VEHICLE_EVENTS sample_vocab"
        and sts = "MICRO_MOBILITY_VEHICLE_STATES sample_vocab"
        and xs = "[JStr ''TRIP_START'']"]
    by blast
  have "map (lower sample_runtime) [JStr ''TRIP_START'']
          = map (lower sample_runtime) [JStr ''trip_start'']"
    by code_simp
  then have "submitVehicleEvent sample_runtime sample_utils sample_vocab none_down
          (sample_request\<lparr>req_body := put (req_body sample_request) ''event_types''
                                         (JArr [JStr ''TRIP_START''])\<rparr>) sample_store
      = submitVehicleEvent sample_runtime sample_utils sample_vocab none_down
          (sample_request\<lparr>req_body := put (req_body sample_request) ''event_types''
                                         (JArr [JStr ''trip_start''])\<rparr>) sample_store"
    using C10 [where ys = "[JStr ''TRIP_START'']" and zs = "[JStr ''trip_start'']"
        and req = sample_request and rt = sample_runtime
        and b = "req_body sample_request" and u = sample_utils and v = sample_vocab
        and f = none_down and s = sample_store]
    by blast
  moreover have "response (submitVehicleEvent sample_runtime sample_utils sample_vocab none_down
          (sample_request\<lparr>req_body := put (req_body sample_request) ''event_types''
                                         (JArr [JStr ''trip_start''])\<rparr>) sample_store)
     = Some \<lparr>status = 201, body = EventBody sample_device_id (JStr ''on_trip'')\<rparr>"
    by code_simp
  moreover have "response (submitVehicleEvent sample_runtime sample_utils sample_vocab none_down
               sample_request_upper_state sample_store)
     = Some \<lparr>status = 400,
             body = ErrorBody (bad_param (Tmpl ''invalid vehicle_state '' (JStr ''ON_TRIP'') ''''))\<rparr>"
    by code_simp
  ultimately show ?thesis
    using me accepted by (simp add: sample_request_upper_def)
qed

text \<open>
  A request without a body has no event: reading \<^verbatim>\<open>req.body.event_types\<close> throws before the
  \<^verbatim>\<open>try\<close>, and the handler sends no response.
\<close>

lemma submitVehicleEvent_without_body:
  "response (submitVehicleEvent rt u v f (req\<lparr>req_body := JNull\<rparr>) s) = None \<and>
   unhandled (submitVehicleEvent rt u v f (req\<lparr>req_body := JNull\<rparr>) s)
     = Some (TypeError ''Cannot read properties of null (reading 'event_types')'') \<and>
   final (submitVehicleEvent rt u v f (req\<lparr>req_body := JNull\<rparr>) s) = s"
  by (simp add: submitVehicleEvent_def make_event_def)

lemma warm_cache_db [simp]:
  "db_devices (warm_cache f d i s) = db_devices s"
  "db_events (warm_cache f d i s) = db_events s"
  "db_telemetry (warm_cache f d i s) = db_telemetry s"
  "cache_events (warm_cache f d i s) = cache_events s"
  "cache_telemetry (warm_cache f d i s) = cache_telemetry s"
  by (simp_all add: warm_cache_def Promise_all_def cache_writeDevice_def stream_write_def
      split: sum.splits)

lemma db_writeTelemetry_db [simp]:
  "db_devices (snd (db_writeTelemetry s [t])) = db_devices s"
  "db_events (snd (db_writeTelemetry s [t])) = db_events s"
  "cache_events (snd (db_writeTelemetry s [t])) = cache_events s"
  "cache_telemetry (snd (db_writeTelemetry s [t])) = cache_telemetry s"
  by simp_all

lemma db_writeEvent_frame:
  assumes "db_writeEvent s e = Inr r"
    and "db_devices s' = db_devices s" and "db_events s' = db_events s"
  shows "db_writeEvent s' e = Inr (e, s'\<lparr>db_events := db_events s' @ [e]\<rparr>)"
  using assms by (simp add: db_writeEvent_def split: if_splits)

lemma trip_checks_snd:
  "snd (trip_checks u e) = e \<or> snd (trip_checks u e) = e\<lparr>trip_id := JNull\<rparr>"
  by (simp add: trip_checks_def Let_def)

lemma badEvent_snd:
  "snd (badEvent u v m e) = e \<or> snd (badEvent u v m e) = e\<lparr>trip_id := JNull\<rparr>"
  unfolding badEvent_def case_null [where f = "\<lambda>r. (r, e)"]
  using trip_checks_snd [of u e] by auto

lemma badEvent_keeps:
  "vehicle_state (snd (badEvent u v m e)) = vehicle_state e"
  "device_id (snd (badEvent u v m e)) = device_id e"
  "timestamp (snd (badEvent u v m e)) = timestamp e"
  "telemetry (snd (badEvent u v m e)) = telemetry e"
  using badEvent_snd [of u v m e] by auto

lemma validate_snd:
  "snd (validate u v d e) =
     snd (badEvent u v (get d ''modality'')
            (if truthy (telemetry e)
             then e\<lparr>telemetry := put (telemetry e) ''device_id'' (device_id e)\<rparr> else e))"
  by (simp add: validate_def Let_def split: prod.splits)

lemma validate_keeps:
  "vehicle_state (snd (validate u v d e)) = vehicle_state e"
  "device_id (snd (validate u v d e)) = device_id e"
  "timestamp (snd (validate u v d e)) = timestamp e"
  by (simp_all add: validate_snd badEvent_keeps)

lemma store_before_write_db [simp]:
  "db_devices (store_before_write f d e s) = db_devices s"
  "db_events (store_before_write f d e s) = db_events s"
  "cache_events (store_before_write f d e s) = cache_events s"
  "cache_telemetry (store_before_write f d e s) = cache_telemetry s"
  by (simp_all add: store_before_write_def Let_def del: db_writeTelemetry.simps)

lemma submitVehicleEvent_success:
  assumes me: "make_event rt req = Inr built"
    and rd: "db_readDevice s (params_device_id req) (locals_provider_id req) = Inr device"
    and va: "validate u v device built = (Inr None, event)"
    and wr: "db_writeEvent s event = Inr r"
  shows "submitVehicleEvent rt u v f req s =
    \<lparr>response =
       Some \<lparr>status = 201, body = EventBody (params_device_id req) (vehicle_state event)\<rparr>,
     final = fan_out f req event (telemetry event)
               ((store_before_write f device event s)
                  \<lparr>db_events := db_events s @ [event]\<rparr>),
     unhandled = None\<rparr>"
proof -
  from va have "device_id event = params_device_id req"
    using validate_keeps(2) [of u v device built] make_event_fields(1) [OF me] by simp
  moreover have "db_writeEvent (store_before_write f device event s) event =
      Inr (event, (store_before_write f device event s)\<lparr>db_events := db_events s @ [event]\<rparr>)"
    using db_writeEvent_frame [OF wr, of "store_before_write f device event s"] by simp
  ultimately show ?thesis
    using rd va make_event_fields(1) [OF me]
    by (simp add: submitVehicleEvent_def me store_before_write_def Let_def
        del: db_writeTelemetry.simps)
qed

text \<open>
  C5. When the request has an event, the device is registered, the event is valid and
  \<^verbatim>\<open>db.writeEvent\<close> succeeds, the handler answers 201 with the device id and the vehicle
  state of the request, and no exception escapes it, whichever of the calls on the cache
  and the stream throw (all of them included).
\<close>

theorem submitVehicleEvent_fan_out_failure_tolerated:
  assumes "make_event rt req = Inr built"
    and "db_readDevice s (params_device_id req) (locals_provider_id req) = Inr device"
    and "fst (validate u v device built) = Inr None"
    and "\<exists>r. db_writeEvent s (snd (validate u v device built)) = Inr r"
  shows "response (submitVehicleEvent rt u v f req s) =
           Some \<lparr>status = 201,
                 body = EventBody (params_device_id req) (get (req_body req) ''vehicle_state'')\<rparr> \<and>
         unhandled (submitVehicleEvent rt u v f req s) = None"
proof -
  obtain event where va: "validate u v device built = (Inr None, event)"
    using assms(3) by (cases "validate u v device built") simp
  with assms(4) obtain r where "db_writeEvent s event = Inr r" by auto
  from submitVehicleEvent_success [OF assms(1,2) va this, of f]
    validate_keeps(1) [of u v device built] va make_event_fields(2) [OF assms(1)]
  show ?thesis by simp
qed

theorem submitVehicleEvent_fan_out_failure_tolerated_witness:
  "response (submitVehicleEvent sample_runtime sample_utils sample_vocab all_down sample_request
               sample_store) =
     Some \<lparr>status = 201, body = EventBody sample_device_id (JStr ''on_trip'')\<rparr> \<and>
   unhandled (submitVehicleEvent sample_runtime sample_utils sample_vocab all_down sample_request
                sample_store)
     = None \<and>
   cache_events (final (submitVehicleEvent sample_runtime sample_utils sample_vocab all_down
                          sample_request sample_store)) = [] \<and>
   stream_log (final (submitVehicleEvent sample_runtime sample_utils sample_vocab all_down
                        sample_request sample_store)) = []"
proof -
  have "req_body sample_request \<noteq> JUndefined" and "req_body sample_request \<noteq> JNull"
    by code_simp+
  then obtain built where me: "make_event sample_runtime sample_request = Inr built"
    using make_event_readable by blast
  then have built: "built = projr (make_event sample_runtime sample_request)" by simp
  have "db_readDevice sample_store (params_device_id sample_request)
          (locals_provider_id sample_request) = Inr sample_device"
    by code_simp
  moreover have "fst (validate sample_utils sample_vocab sample_device built) = Inr None"
    unfolding built by code_simp
  moreover have "db_writeEvent sample_store
          (snd (validate sample_utils sample_vocab sample_device built))
        = Inr (snd (validate sample_utils sample_vocab sample_device built),
               sample_store\<lparr>db_events :=
                 [snd (validate sample_utils sample_vocab sample_device built)]\<rparr>)"
    unfolding built by code_simp
  moreover have "get (req_body sample_request) ''vehicle_state'' = JStr ''on_trip''"
    by code_simp
  moreover have "params_device_id sample_request = sample_device_id" by code_simp
  moreover have "cache_events (final (submitVehicleEvent sample_runtime sample_utils sample_vocab
                   all_down sample_request sample_store)) = []"
    by code_simp
  moreover have "stream_log (final (submitVehicleEvent sample_runtime sample_utils sample_vocab
                   all_down sample_request sample_store)) = []"
    by code_simp
  ultimately show ?thesis
    using submitVehicleEvent_fan_out_failure_tolerated [OF me, of sample_store sample_device
        sample_utils sample_vocab all_down]
    by simp
qed

lemma fail_status: "map_option status (response (fail f req err e s)) \<noteq> Some 201"
  by (simp add: fail_def Let_def split: prod.splits)

lemma fail_frame [simp]:
  "db_devices (final (fail f req err e s)) = db_devices s"
  "db_events (final (fail f req err e s)) = db_events s"
  "db_telemetry (final (fail f req err e s)) = db_telemetry s"
  "cache_events (final (fail f req err e s)) = cache_events s"
  "cache_telemetry (final (fail f req err e s)) = cache_telemetry s"
  by (simp_all add: fail_def Let_def stream_write_def split: prod.splits)

lemma fail_duplicate:
  "response (fail f req (Error ''duplicate'') e s) =
     Some \<lparr>status = 400,
           body = ErrorBody
             \<lparr>error = ''bad_param'',
              error_description =
                Lit ''An event with this device_id and timestamp has already been received''\<rparr>\<rparr>"
  by (simp add: fail_def Let_def split: prod.splits)

lemma fan_out_db [simp]:
  "db_devices (fan_out f req e t s) = db_devices s"
  "db_events (fan_out f req e t s) = db_events s"
  "db_telemetry (fan_out f req e t s) = db_telemetry s"
  by (simp_all add: fan_out_def Let_def Promise_all_def cache_writeEvent_def stream_write_def
      cache_writeTelemetry_def split: prod.splits option.splits)

lemma db_readDevice_frame:
  "db_devices s' = db_devices s \<Longrightarrow> db_readDevice s' i p = db_readDevice s i p"
  by (simp add: db_readDevice_def)

lemma submitVehicleEvent_201:
  assumes "map_option status (response (submitVehicleEvent rt u v f req s)) = Some 201"
  obtains built device event where
    "make_event rt req = Inr built"
    "db_readDevice s (params_device_id req) (locals_provider_id req) = Inr device"
    "validate u v device built = (Inr None, event)"
    "db_writeEvent (store_before_write f device event s) event
       = Inr (event, (store_before_write f device event s)\<lparr>db_events := db_events s @ [event]\<rparr>)"
proof (cases "make_event rt req")
  case (Inl err)
  with assms show ?thesis by (simp add: submitVehicleEvent_def)
next
  case me: (Inr built)
  note dev = make_event_fields(1) [OF me]
  show ?thesis
  proof (cases "db_readDevice s (params_device_id req) (locals_provider_id req)")
    case (Inl err)
    with assms me dev fail_status show ?thesis
      by (auto simp: submitVehicleEvent_def Let_def)
  next
    case (Inr device)
    obtain r event where va: "validate u v device built = (r, event)"
      by (cases "validate u v device built")
    have id: "device_id event = params_device_id req"
      using validate_keeps(2) [of u v device built] va dev by simp
    show ?thesis
    proof (cases r)
      case (Inl err)
      with assms me dev Inr va fail_status show ?thesis
        by (auto simp: submitVehicleEvent_def Let_def)
    next
      case r: (Inr failure)
      show ?thesis
      proof (cases failure)
        case (Some e)
        with assms me dev Inr va r fail_status show ?thesis
          by (auto simp: submitVehicleEvent_def Let_def split: prod.splits option.splits)
      next
        case None
        show ?thesis
        proof (cases "db_writeEvent (store_before_write f device event s) event")
          case (Inl err)
          with assms me dev Inr va r None id fail_status show ?thesis
            by (auto simp: submitVehicleEvent_def Let_def store_before_write_def
                simp del: db_writeTelemetry.simps)
        next
          case w: (Inr res)
          from db_writeEvent_frame [OF w, of "store_before_write f device event s"]
          have "db_writeEvent (store_before_write f device event s) event
            = Inr (event, (store_before_write f device event s)\<lparr>db_events := db_events s @ [event]\<rparr>)"
            by simp
          with me Inr va r None that show ?thesis by simp
        qed
      qed
    qed
  qed
qed

lemma make_event_resubmitted:
  assumes "params_device_id req' = params_device_id req"
    and "locals_provider_id req' = locals_provider_id req"
    and "req_body req' = req_body req"
    and "make_event rt req = Inr built"
  shows "make_event rt req' = Inr (built\<lparr>recorded := now_recorded req'\<rparr>)"
proof -
  from assms(4) have "req_body req \<noteq> JUndefined" "req_body req \<noteq> JNull"
    by (auto simp: make_event_def Let_def split: if_splits)
  moreover from assms(4) have "built = projr (make_event rt req)" by simp
  ultimately show ?thesis
    using assms(1-3) by (simp add: make_event_def Let_def)
qed

lemma vocabulary_check_recorded [simp]:
  "vocabulary_check evs sts (e\<lparr>recorded := x\<rparr>) = vocabulary_check evs sts e"
  by (simp add: vocabulary_check_def cong: if_cong option.case_cong)

lemma trip_state_check_recorded [simp]:
  "trip_state_check ts ex (e\<lparr>recorded := x\<rparr>) = trip_state_check ts ex e"
  by (simp add: trip_state_check_def cong: if_cong)

lemma modality_check_recorded [simp]:
  "modality_check v m (e\<lparr>recorded := x\<rparr>) = modality_check v m e"
  unfolding modality_check_def case_null [where f = "\<lambda>r. r"]
  by (simp cong: if_cong)

lemma trip_checks_recorded:
  "trip_checks u (e\<lparr>recorded := x\<rparr>)
     = (fst (trip_checks u e), (snd (trip_checks u e))\<lparr>recorded := x\<rparr>)"
  by (simp add: trip_checks_def Let_def)

lemma badEvent_recorded:
  "badEvent u v m (e\<lparr>recorded := x\<rparr>)
     = (fst (badEvent u v m e), (snd (badEvent u v m e))\<lparr>recorded := x\<rparr>)"
  unfolding badEvent_def case_null [where f = "\<lambda>r. (r, e)"]
    case_null [where f = "\<lambda>r. (r, e\<lparr>recorded := x\<rparr>)"]
  by (simp add: trip_checks_recorded)

lemma recorded_telemetry_swap:
  "e\<lparr>recorded := x, telemetry := t\<rparr> = e\<lparr>telemetry := t, recorded := x\<rparr>"
  by (cases e) simp

lemma validate_recorded:
  "validate u v d (e\<lparr>recorded := x\<rparr>)
     = (fst (validate u v d e), (snd (validate u v d e))\<lparr>recorded := x\<rparr>)"
proof (cases "truthy (telemetry e)")
  case True
  then show ?thesis
    unfolding validate_def Let_def
    by (simp add: recorded_telemetry_swap badEvent_recorded split: prod.splits)
next
  case False
  then show ?thesis
    unfolding validate_def Let_def
    by (simp add: badEvent_recorded split: prod.splits)
qed

lemma submitVehicleEvent_duplicate:
  assumes me: "make_event rt req = Inr built"
    and rd: "db_readDevice s (params_device_id req) (locals_provider_id req) = Inr device"
    and va: "validate u v device built = (Inr None, event)"
    and known: "device_id event \<in> (\<lambda>d. get d ''device_id'') ` set (db_devices s)"
    and dup: "event_key event \<in> event_key ` set (db_events s)"
  shows "submitVehicleEvent rt u v f req s =
           fail f req (Error ''duplicate'') event (store_before_write f device event s)"
proof -
  note dev = make_event_fields(1) [OF me]
  have id: "device_id event = params_device_id req"
    using validate_keeps(2) [of u v device built] va dev by simp
  have "db_writeEvent (store_before_write f device event s) event = Inl (Error ''duplicate'')"
    using known dup by (simp add: db_writeEvent_def)
  with rd va id dev show ?thesis
    by (simp add: submitVehicleEvent_def me Let_def store_before_write_def
        del: db_writeTelemetry.simps)
qed

lemma store_before_write_telemetry:
  "truthy (telemetry e) \<Longrightarrow>
   telemetry_key (telemetry e) \<in> telemetry_key ` set (db_telemetry (store_before_write f d e s))"
  by (simp add: store_before_write_def Let_def)

lemma store_before_write_again:
  assumes "truthy (telemetry e) \<longrightarrow> telemetry_key (telemetry e) \<in> telemetry_key ` set (db_telemetry s)"
  shows "db_telemetry (store_before_write f d e s) = db_telemetry s"
  using assms by (simp add: store_before_write_def Let_def)

text \<open>
  C4, as the code has it. When a submission has been answered with 201, a second
  submission of the same device id, provider and body, made on the state that the first
  one left, is answered with 400 and the error \<^verbatim>\<open>bad_param\<close> ("An event with this device_id
  and timestamp has already been received"), whichever calls on the cache and the stream
  throw; and it leaves the store of record (devices, events, telemetry) and the cached
  events and telemetry as they were.
\<close>

theorem submitVehicleEvent_duplicate_rejected:
  assumes first: "map_option status (response (submitVehicleEvent rt u v f req s)) = Some 201"
    and same: "params_device_id req' = params_device_id req"
      "locals_provider_id req' = locals_provider_id req"
      "req_body req' = req_body req"
  shows "response (submitVehicleEvent rt u v f' req' (final (submitVehicleEvent rt u v f req s))) =
           Some \<lparr>status = 400,
                 body = ErrorBody
                   \<lparr>error = ''bad_param'',
                    error_description =
                      Lit ''An event with this device_id and timestamp has already been received''\<rparr>\<rparr> \<and>
         db_devices (final (submitVehicleEvent rt u v f' req' (final (submitVehicleEvent rt u v f req s))))
           = db_devices (final (submitVehicleEvent rt u v f req s)) \<and>
         db_events (final (submitVehicleEvent rt u v f' req' (final (submitVehicleEvent rt u v f req s))))
           = db_events (final (submitVehicleEvent rt u v f req s)) \<and>
         db_telemetry (final (submitVehicleEvent rt u v f' req' (final (submitVehicleEvent rt u v f req s))))
           = db_telemetry (final (submitVehicleEvent rt u v f req s)) \<and>
         cache_events (final (submitVehicleEvent rt u v f' req' (final (submitVehicleEvent rt u v f req s))))
           = cache_events (final (submitVehicleEvent rt u v f req s)) \<and>
         cache_telemetry (final (submitVehicleEvent rt u v f' req' (final (submitVehicleEvent rt u v f req s))))
           = cache_telemetry (final (submitVehicleEvent rt u v f req s))"
proof -
  from first obtain built device event where
    me: "make_event rt req = Inr built" and
    rd: "db_readDevice s (params_device_id req) (locals_provider_id req) = Inr device" and
    va: "validate u v device built = (Inr None, event)" and
    wr: "db_writeEvent (store_before_write f device event s) event
       = Inr (event, (store_before_write f device event s)\<lparr>db_events := db_events s @ [event]\<rparr>)"
    by (rule submitVehicleEvent_201)
  let ?s' = "final (submitVehicleEvent rt u v f req s)"
  let ?event' = "event\<lparr>recorded := now_recorded req'\<rparr>"
  from wr have "\<exists>r. db_writeEvent s event = Inr r"
    by (simp add: db_writeEvent_def split: if_splits)
  then obtain r where wr0: "db_writeEvent s event = Inr r" ..
  have fin: "?s' = fan_out f req event (telemetry event)
               ((store_before_write f device event s)\<lparr>db_events := db_events s @ [event]\<rparr>)"
    using submitVehicleEvent_success [OF me rd va wr0, of f] by simp
  have dev: "db_devices ?s' = db_devices s" and
    evs: "db_events ?s' = db_events s @ [event]" and
    tel: "db_telemetry ?s' = db_telemetry (store_before_write f device event s)"
    by (simp_all add: fin)
  from wr0 have known: "device_id event \<in> (\<lambda>d. get d ''device_id'') ` set (db_devices s)"
    by (simp add: db_writeEvent_def split: if_splits)
  have me': "make_event rt req' = Inr (built\<lparr>recorded := now_recorded req'\<rparr>)"
    by (rule make_event_resubmitted [OF same me])
  have rd': "db_readDevice ?s' (params_device_id req') (locals_provider_id req') = Inr device"
    using rd same db_readDevice_frame [OF dev] by simp
  have va': "validate u v device (built\<lparr>recorded := now_recorded req'\<rparr>) = (Inr None, ?event')"
    using va by (simp add: validate_recorded)
  have known': "device_id ?event' \<in> (\<lambda>d. get d ''device_id'') ` set (db_devices ?s')"
    using known dev by simp
  have dup': "event_key ?event' \<in> event_key ` set (db_events ?s')"
    by (simp add: evs event_key_def)
  have run: "submitVehicleEvent rt u v f' req' ?s' =
               fail f' req' (Error ''duplicate'') ?event' (store_before_write f' device ?event' ?s')"
    by (rule submitVehicleEvent_duplicate [OF me' rd' va' known' dup'])
  have "truthy (telemetry ?event') \<longrightarrow>
          telemetry_key (telemetry ?event') \<in> telemetry_key ` set (db_telemetry ?s')"
    using store_before_write_telemetry [of event f device s] by (simp add: tel)
  then have tel': "db_telemetry (store_before_write f' device ?event' ?s') = db_telemetry ?s'"
    by (rule store_before_write_again)
  show ?thesis
    unfolding run by (simp add: fail_duplicate tel')
qed

theorem submitVehicleEvent_duplicate_rejected_witness:
  "response (submitVehicleEvent sample_runtime sample_utils sample_vocab all_down sample_request
               (final (submitVehicleEvent sample_runtime sample_utils sample_vocab none_down
                         sample_request sample_store))) =
     Some \<lparr>status = 400,
           body = ErrorBody
             \<lparr>error = ''bad_param'',
              error_description =
                Lit ''An event with this device_id and timestamp has already been received''\<rparr>\<rparr> \<and>
   db_events (final (submitVehicleEvent sample_runtime sample_utils sample_vocab all_down
               sample_request
               (final (submitVehicleEvent sample_runtime sample_utils sample_vocab none_down
                         sample_request sample_store))))
     = db_events (final (submitVehicleEvent sample_runtime sample_utils sample_vocab none_down
                           sample_request sample_store))"
proof -
  have "map_option status
          (response (submitVehicleEvent sample_runtime sample_utils sample_vocab none_down
                       sample_request sample_store)) = Some 201"
    by code_simp
  from submitVehicleEvent_duplicate_rejected [OF this, where req' = sample_request
      and f' = all_down]
  show ?thesis by simp
qed

text \<open>
  C4 as the claim states it has the error field \<^verbatim>\<open>duplicate\<close> and the state unaffected: the
  second submission of the sample request is answered with the error \<^verbatim>\<open>bad_param\<close>, and it
  appends a record to the stream (the rejected event, on the error channel).
\<close>

theorem submitVehicleEvent_duplicate_error_is_bad_param:
  "map_option status
     (response (submitVehicleEvent sample_runtime sample_utils sample_vocab none_down
                  sample_request sample_store)) = Some 201 \<and>
   map_option body
     (response (submitVehicleEvent sample_runtime sample_utils sample_vocab none_down
                  sample_request
                  (final (submitVehicleEvent sample_runtime sample_utils sample_vocab none_down
                            sample_request sample_store)))) =
     Some (ErrorBody
        \<lparr>error = ''bad_param'',
         error_description =
           Lit ''An event with this device_id and timestamp has already been received''\<rparr>) \<and>
   length (stream_log (final (submitVehicleEvent sample_runtime sample_utils sample_vocab
               none_down sample_request
               (final (submitVehicleEvent sample_runtime sample_utils sample_vocab none_down
                         sample_request sample_store))))) =
     Suc (length (stream_log (final (submitVehicleEvent sample_runtime sample_utils sample_vocab
                                       none_down sample_request sample_store))))"
  by code_simp

end
